theory Spec2Isabelle
  imports Complex_Main "HOL-Library.Multiset"
begin

section \<open>JavaScript values used by the DICOM SEG mask factory\<close>

text \<open>
  A JavaScript number is a double: \<open>Fin x\<close> for a finite value \<open>x\<close>, or \<open>NaN\<close>. The
  infinities are not modelled: a result of magnitude \<open>2^1024\<close> or more is outside the model.
  The numbers that an input holds are taken to be doubles; the results of the arithmetic
  and of the parsing are rounded to doubles.
  An absent array entry (\<open>undefined\<close>) read inside an arithmetic expression behaves as
  \<open>NaN\<close>, which is what \<open>js_nth\<close> returns out of range.
\<close>

datatype jsnum = NaN | Fin real

text \<open>
  Rounding to the nearest double, ties to the even significand. The binary exponent of a
  positive number \<open>x\<close> is the \<open>e\<close> with \<open>2^e \<le> x < 2^(e+1)\<close>; a double has 53 significant
  bits, so its last bit weighs \<open>2^(e-52)\<close>, and \<open>2^(-1074)\<close> below the normal range.
\<close>

function bit_length :: "int \<Rightarrow> int" where
  "bit_length n = (if n \<le> 0 then 0 else 1 + bit_length (n div 2))"
  by pat_completeness auto
termination
  by (relation "measure nat") auto

declare bit_length.simps [simp del]

definition binary_exponent :: "real \<Rightarrow> int" where
  "binary_exponent x =
     (if 1 \<le> x then bit_length \<lfloor>x\<rfloor> - 1 else - bit_length (\<lceil>1 / x\<rceil> - 1))"

definition round_half_even :: "real \<Rightarrow> int" where
  "round_half_even x =
     (let f = \<lfloor>x\<rfloor>; d = x - of_int f
      in if d < 1 / 2 then f else if 1 / 2 < d then f + 1 else if even f then f else f + 1)"

definition to_double :: "real \<Rightarrow> real" where
  "to_double x =
     (if x = 0 then 0
      else let ulp = power_int 2 (max (binary_exponent \<bar>x\<bar>) (- 1022) - 52)
           in of_int (round_half_even (x / ulp)) * ulp)"

text \<open>
  The operator \<open>-\<close>. \<open>double_sub\<close> is the difference as the machine computes it, rounded
  to the nearest double. \<open>js_sub\<close> is the difference before rounding: it stands for \<open>-\<close>
  in \<open>comparePosPat\<close>, whose result is used for its sign only: rounding the difference of
  two doubles changes neither its sign nor whether it is zero (lemma \<open>double_sub_sign\<close>).
\<close>

fun double_sub :: "jsnum \<Rightarrow> jsnum \<Rightarrow> jsnum" where
  "double_sub (Fin x) (Fin y) = Fin (to_double (x - y))"
| "double_sub _ _ = NaN"

fun js_sub :: "jsnum \<Rightarrow> jsnum \<Rightarrow> jsnum" where
  "js_sub (Fin x) (Fin y) = Fin (x - y)"
| "js_sub _ _ = NaN"

fun js_abs :: "jsnum \<Rightarrow> jsnum" where
  "js_abs (Fin x) = Fin \<bar>x\<bar>"
| "js_abs NaN = NaN"

text \<open>\<open>a >= b\<close>: false as soon as one side is \<open>NaN\<close>.\<close>

fun js_ge :: "jsnum \<Rightarrow> jsnum \<Rightarrow> bool" where
  "js_ge (Fin x) (Fin y) = (y \<le> x)"
| "js_ge _ _ = False"

text \<open>\<open>a === b\<close> on numbers: \<open>NaN\<close> is not equal to itself.\<close>

fun js_num_eq :: "jsnum \<Rightarrow> jsnum \<Rightarrow> bool" where
  "js_num_eq (Fin x) (Fin y) = (x = y)"
| "js_num_eq _ _ = False"

definition js_nth :: "jsnum list \<Rightarrow> nat \<Rightarrow> jsnum" where
  "js_nth xs i = (if i < length xs then xs ! i else NaN)"

section \<open>Position utilities\<close>

subsection \<open>equalPosPat\<close>

text \<open>
  \<open>JSON.stringify\<close> of an array of numbers is the text \<open>[t1,t2,...]\<close>, where the text of a
  finite number is its decimal literal and the text of \<open>NaN\<close> is \<open>null\<close>. The string is
  modelled by its sequence of lexical tokens; the literal of a finite number is one token
  that identifies the number (number literals never contain a comma or a bracket).
\<close>

datatype json_token = LBracket | RBracket | Comma | NullText | NumberText real

fun json_number :: "jsnum \<Rightarrow> json_token" where
  "json_number NaN = NullText"
| "json_number (Fin x) = NumberText x"

fun json_elements :: "jsnum list \<Rightarrow> json_token list" where
  "json_elements [] = []"
| "json_elements [x] = [json_number x]"
| "json_elements (x # y # ys) = json_number x # Comma # json_elements (y # ys)"

definition JSON_stringify :: "jsnum list \<Rightarrow> json_token list" where
  "JSON_stringify xs = LBracket # json_elements xs @ [RBracket]"

definition equalPosPat :: "jsnum list \<Rightarrow> jsnum list \<Rightarrow> bool" where
  "equalPosPat pos1 pos2 = (JSON_stringify pos1 = JSON_stringify pos2)"

subsection \<open>comparePosPat\<close>

text \<open>
  The loop of \<open>comparePosPat\<close>: the first argument counts the axes still to visit, so the
  axis read is \<open>index\<close> when \<open>Suc index\<close> remain; \<open>diff\<close> is \<open>None\<close> for JavaScript's
  \<open>null\<close>, its value before the first iteration.
\<close>

fun comparePosPat_loop :: "nat \<Rightarrow> jsnum list \<Rightarrow> jsnum list \<Rightarrow> jsnum option \<Rightarrow> jsnum option" where
  "comparePosPat_loop 0 pos1 pos2 diff = diff"
| "comparePosPat_loop (Suc index) pos1 pos2 diff =
     (let diff' = js_sub (js_nth pos2 index) (js_nth pos1 index)
      in if diff' \<noteq> Fin 0 then Some diff'
         else comparePosPat_loop index pos1 pos2 (Some diff'))"

definition comparePosPat :: "jsnum list \<Rightarrow> jsnum list \<Rightarrow> jsnum option" where
  "comparePosPat pos1 pos2 = comparePosPat_loop (length pos1) pos1 pos2 None"

subsection \<open>Array.prototype.sort with a comparator\<close>

text \<open>
  The built-in sort is stable and moves \<open>a\<close> after \<open>b\<close> exactly when the comparator
  returns a positive number for \<open>(a, b)\<close>; \<open>null\<close> and \<open>NaN\<close> count as zero. It is
  modelled by a stable insertion sort.
\<close>

fun cmp_positive :: "jsnum option \<Rightarrow> bool" where
  "cmp_positive (Some (Fin d)) = (0 < d)"
| "cmp_positive _ = False"

fun sort_insert :: "('a \<Rightarrow> 'a \<Rightarrow> jsnum option) \<Rightarrow> 'a \<Rightarrow> 'a list \<Rightarrow> 'a list" where
  "sort_insert cmp x [] = [x]"
| "sort_insert cmp x (y # ys) =
     (if cmp_positive (cmp x y) then y # sort_insert cmp x ys else x # y # ys)"

definition array_sort :: "('a \<Rightarrow> 'a \<Rightarrow> jsnum option) \<Rightarrow> 'a list \<Rightarrow> 'a list" where
  "array_sort cmp xs = foldr (sort_insert cmp) xs []"

text \<open>
  A coordinate triple of finite numbers, and the order the specification describes:
  descending by the last axis, ties broken descending by the preceding axes.
\<close>

fun finite_triple :: "jsnum list \<Rightarrow> bool" where
  "finite_triple [Fin x, Fin y, Fin z] = True"
| "finite_triple _ = False"


section \<open>DICOM elements\<close>

text \<open>
  A primitive value held by a data element: a number, a string, or \<open>Undef\<close> for
  JavaScript's \<open>undefined\<close> (what \<open>value[0]\<close> yields on an empty value array).
\<close>

datatype dval = Undef | NumV jsnum | Str string

text \<open>\<open>value[i]\<close> on a value array.\<close>

definition js_idx :: "dval list \<Rightarrow> nat \<Rightarrow> dval" where
  "js_idx vs i = (if i < length vs then vs ! i else Undef)"

text \<open>\<open>!v\<close>: the value is falsy.\<close>

fun falsy :: "dval \<Rightarrow> bool" where
  "falsy Undef = True"
| "falsy (NumV NaN) = True"
| "falsy (NumV (Fin x)) = (x = 0)"
| "falsy (Str s) = (s = [])"

text \<open>\<open>a === b\<close> on primitive values.\<close>

fun dval_eq :: "dval \<Rightarrow> dval \<Rightarrow> bool" where
  "dval_eq Undef Undef = True"
| "dval_eq (NumV x) (NumV y) = js_num_eq x y"
| "dval_eq (Str s) (Str t) = (s = t)"
| "dval_eq _ _ = False"

text \<open>
  An item of a sequence is a JavaScript object whose keys are tags written \<open>x\<close> followed by
  eight hexadecimal digits. Each kind of item is a record with one field per tag the factory
  reads; a field is \<open>None\<close> when the item has no such key and otherwise holds the \<open>value\<close>
  array of the element. Items of the dimension organization and dimension index sequences
  share one record, as do the items of the shared and per-frame functional groups sequences.
\<close>

record dim_item =
  x00209164 :: "dval list option"
  x00209165 :: "dval list option"
  x00209421 :: "dval list option"

record segment_item =
  x00620004 :: "dval list option"
  x00620005 :: "dval list option"
  x00620008 :: "dval list option"
  x00620009 :: "dval list option"
  x0062000C :: "dval list option"
  x0062000D :: "dval list option"

record measure_item =
  x00280030 :: "dval list option"
  x00180088 :: "dval list option"

record source_image_item =
  x00081150 :: "dval list option"
  x00081155 :: "dval list option"

record derivation_item =
  x00082112 :: "source_image_item list option"

record frame_content_item =
  x00209157 :: "dval list option"

record segment_id_item =
  x0062000B :: "dval list option"

record plane_pos_item =
  x00200032 :: "dval list option"

record plane_orient_item =
  x00200037 :: "dval list option"

record func_group_item =
  x00089124 :: "derivation_item list option"
  x00209111 :: "frame_content_item list option"
  x0062000A :: "segment_id_item list option"
  x00209113 :: "plane_pos_item list option"
  x00209116 :: "plane_orient_item list option"
  x00289110 :: "measure_item list option"

text \<open>
  Modelled from the spec: the element accessor of the root element is defined elsewhere
  (\<open>getFromKey(tag, asSequence?)\<close> returns a value, a sequence of items or nothing, and
  \<open>getImageSize()\<close> returns the size). The root element is reached through its accessor
  only, so each field holds what \<open>getFromKey\<close> returns for that key (\<open>Undef\<close> or \<open>None\<close>
  when the tag is absent), and \<open>getImageSize\<close> what the method of that name returns. Rows
  and columns are unsigned integers and the number of frames is an integer string.
\<close>

record dicomElements =
  x00020010 :: dval
  x00620001 :: dval
  x00209311 :: dval
  x00280011 :: "nat option"
  x00280010 :: "nat option"
  x00280008 :: "string option"
  x00209221 :: "dim_item list option"
  x00209222 :: "dim_item list option"
  x00620002 :: "segment_item list option"
  x52009229 :: "func_group_item list option"
  x52009230 :: "func_group_item list option"
  x0020000E :: dval
  getImageSize :: "nat list"

section \<open>Errors\<close>

text \<open>One constructor for each \<open>throw\<close> of the source, and \<open>TypeError\<close> for a property read on
  \<open>undefined\<close> or \<open>null\<close>.\<close>

datatype error =
    UnsupportedCompressed string
  | MissingSegmentationType
  | UnsupportedSegmentationType dval
  | UnsupportedDimOrgType dval
  | UnsupportedDimOrgSeqLength
  | UnsupportedDimIndexSeqLength
  | UnknownDimensionOrganization
  | NonImagePositionLastIndex
  | MissingColumns
  | MissingRows
  | BufferFramesNotEqual
  | MissingSegSequence
  | MissingPerFrameSeq
  | PerFrameFramesNotEqual
  | MultiOrientation
  | MultiResolution
  | NoSpacing
  | NoOrientation
  | TypeError

text \<open>The error taxonomy of the specification (section 7), as the classes of these throws.\<close>

datatype error_class =
    UnsupportedTransferSyntax
  | InvalidSegmentationType
  | UnsupportedDimensionOrganization
  | MissingRequiredElement
  | FrameCountMismatch
  | MultiOrientationUnsupported
  | MultiResolutionUnsupported
  | MissingGeometry
  | RuntimeTypeError

fun class_of :: "error \<Rightarrow> error_class" where
  "class_of (UnsupportedCompressed a) = UnsupportedTransferSyntax"
| "class_of MissingSegmentationType = InvalidSegmentationType"
| "class_of (UnsupportedSegmentationType t) = InvalidSegmentationType"
| "class_of (UnsupportedDimOrgType t) = UnsupportedDimensionOrganization"
| "class_of UnsupportedDimOrgSeqLength = UnsupportedDimensionOrganization"
| "class_of UnsupportedDimIndexSeqLength = UnsupportedDimensionOrganization"
| "class_of UnknownDimensionOrganization = UnsupportedDimensionOrganization"
| "class_of NonImagePositionLastIndex = UnsupportedDimensionOrganization"
| "class_of MissingColumns = MissingRequiredElement"
| "class_of MissingRows = MissingRequiredElement"
| "class_of BufferFramesNotEqual = FrameCountMismatch"
| "class_of MissingSegSequence = MissingRequiredElement"
| "class_of MissingPerFrameSeq = MissingRequiredElement"
| "class_of PerFrameFramesNotEqual = FrameCountMismatch"
| "class_of MultiOrientation = MultiOrientationUnsupported"
| "class_of MultiResolution = MultiResolutionUnsupported"
| "class_of NoSpacing = MissingGeometry"
| "class_of NoOrientation = MissingGeometry"
| "class_of TypeError = RuntimeTypeError"

text \<open>Sequencing of two steps that may throw: the second runs on the result of the first.\<close>

fun and_then :: "error + 'a \<Rightarrow> ('a \<Rightarrow> error + 'b) \<Rightarrow> error + 'b" where
  "and_then (Inr x) k = k x"
| "and_then (Inl err) k = Inl err"

section \<open>External collaborators\<close>

text \<open>
  The utilities of the library that the factory calls and that are defined elsewhere are
  parameters of the model: string cleaning, the transfer-syntax table (\<open>None\<close> for
  \<open>null\<close>: no decompression needed), the colour conversions, the comparison of colours
  and the comparison of spacings.
\<close>

record rgb =
  r :: jsnum
  g :: jsnum
  b :: jsnum

text \<open>
  Modelled from the spec: the spacing class is defined elsewhere. A spacing is an ordered
  list of two or three numbers (row and column spacing, then the through-plane spacing),
  and \<open>get(2)\<close> is its third component. \<open>SpNull\<close> is the \<open>null\<close> that the spacing reader
  returns when the pixel spacing is absent.
\<close>

datatype spacing_v = SpNull | Spacing "jsnum list"

record externals =
  cleanString :: "dval \<Rightarrow> dval"
  getSyntaxDecompressionName :: "dval \<Rightarrow> string option"
  uintLabToLab :: "dval \<times> dval \<times> dval \<Rightarrow> jsnum \<times> jsnum \<times> jsnum"
  cielabToSrgb :: "jsnum \<times> jsnum \<times> jsnum \<Rightarrow> rgb"
  isEqualRgb :: "rgb \<Rightarrow> rgb \<Rightarrow> bool"
  spacing_equals :: "jsnum list \<Rightarrow> spacing_v \<Rightarrow> bool"

section \<open>Validator\<close>

definition checkDicomSeg :: "externals \<Rightarrow> dicomElements \<Rightarrow> error + unit" where
  "checkDicomSeg env rootElement =
     (let syntax = cleanString env (x00020010 rootElement) in
      case getSyntaxDecompressionName env syntax of
        Some algoName \<Rightarrow> Inl (UnsupportedCompressed algoName)
      | None \<Rightarrow>
          if falsy (x00620001 rootElement) then Inl MissingSegmentationType
          else let segmentationType = cleanString env (x00620001 rootElement) in
            if segmentationType \<noteq> Str ''BINARY''
            then Inl (UnsupportedSegmentationType segmentationType)
            else if \<not> falsy (x00209311 rootElement)
                    \<and> cleanString env (x00209311 rootElement) \<noteq> Str ''3D''
            then Inl (UnsupportedDimOrgType (cleanString env (x00209311 rootElement)))
            else Inr ())"

section \<open>Dimension reader\<close>

record dimension_index =
  organization :: dval
  pointer :: dval
  index_label :: "dval option"

record dimension =
  organizations :: "dval list"
  indices :: "dimension_index list"

text \<open>The body of the loop over the dimension index sequence, for one item.\<close>

definition getDimensionIndex :: "externals \<Rightarrow> dval \<Rightarrow> dim_item \<Rightarrow> error + dimension_index" where
  "getDimensionIndex env org0 item =
     (case x00209164 item of
        None \<Rightarrow> Inl TypeError
      | Some orgV \<Rightarrow>
          (let indexOrg = cleanString env (js_idx orgV 0) in
           if \<not> dval_eq indexOrg org0 then Inl UnknownDimensionOrganization
           else (case x00209165 item of
                   None \<Rightarrow> Inl TypeError
                 | Some ptrV \<Rightarrow>
                     Inr \<lparr> organization = indexOrg,
                           pointer = cleanString env (js_idx ptrV 0),
                           index_label = map_option (\<lambda>v. cleanString env (js_idx v 0))
                                           (x00209421 item) \<rparr>)))"

fun getDimensionIndices :: "externals \<Rightarrow> dval \<Rightarrow> dim_item list \<Rightarrow> error + dimension_index list" where
  "getDimensionIndices env org0 [] = Inr []"
| "getDimensionIndices env org0 (item # items) =
     and_then (getDimensionIndex env org0 item) (\<lambda>index.
     and_then (getDimensionIndices env org0 items) (\<lambda>rest. Inr (index # rest)))"

definition getDimensionOrganization :: "externals \<Rightarrow> dicomElements \<Rightarrow> error + dimension" where
  "getDimensionOrganization env rootElement =
     (case x00209221 rootElement of
        Some [orgItem] \<Rightarrow>
          (case x00209164 orgItem of
             None \<Rightarrow> Inl TypeError
           | Some orgV \<Rightarrow>
               (let orgs = [cleanString env (js_idx orgV 0)] in
                (case x00209222 rootElement of
                   None \<Rightarrow> Inr \<lparr> organizations = orgs, indices = [] \<rparr>
                 | Some indexSq \<Rightarrow>
                     if length indexSq \<noteq> 2 then Inl UnsupportedDimIndexSeqLength
                     else and_then (getDimensionIndices env (orgs ! 0) indexSq) (\<lambda>inds.
                       if \<not> dval_eq (pointer (inds ! 1)) (Str ''(0020,0032)'')
                       then Inl NonImagePositionLastIndex
                       else Inr \<lparr> organizations = orgs, indices = inds \<rparr>))))
      | _ \<Rightarrow> Inl UnsupportedDimOrgSeqLength)"

section \<open>Segment reader\<close>

datatype display_value = Scalar jsnum | RGB rgb

record segment =
  number :: dval
  label :: dval
  algorithmType :: dval
  algorithmName :: "dval option"
  displayValue :: "display_value option"

text \<open>
  In the grayscale branch the source tests the key \<open>x0062000C\<close> and then reads
  \<open>element.x006200C.value\<close>, a key with seven hexadecimal digits. No item has such a key,
  so the read yields \<open>undefined\<close> and the access to \<open>.value\<close> throws a \<open>TypeError\<close>.
\<close>

definition getSegment :: "externals \<Rightarrow> segment_item \<Rightarrow> error + segment" where
  "getSegment env element =
     (case x00620004 element of
        None \<Rightarrow> Inl TypeError
      | Some numberV \<Rightarrow>
     (case x00620005 element of
        None \<Rightarrow> Inl TypeError
      | Some labelV \<Rightarrow>
     (case x00620008 element of
        None \<Rightarrow> Inl TypeError
      | Some typeV \<Rightarrow>
         (let segment = \<lparr> number = js_idx numberV 0,
                          label = cleanString env (js_idx labelV 0),
                          algorithmType = cleanString env (js_idx typeV 0),
                          algorithmName = map_option (\<lambda>v. cleanString env (js_idx v 0))
                                            (x00620009 element),
                          displayValue = None \<rparr>
          in if x0062000C element \<noteq> None then Inl TypeError
             else (case x0062000D element of
                     None \<Rightarrow> Inr segment
                   | Some cielabElement \<Rightarrow>
                       Inr (segment \<lparr> displayValue := Some (RGB (cielabToSrgb env (uintLabToLab env
                              (js_idx cielabElement 0, js_idx cielabElement 1,
                               js_idx cielabElement 2)))) \<rparr>))))))"

text \<open>
  \<open>isEqualSegment\<close> and \<open>isSimilarSegment\<close> take two segments, each possibly \<open>undefined\<close> or
  \<open>null\<close> (\<open>None\<close>). Reading \<open>.r\<close> of an absent display value throws a \<open>TypeError\<close>; a
  scalar display value has no property \<open>r\<close>.
\<close>

text \<open>
  Reading a property of an object: \<open>undefined\<close> when the object has no such property, and
  otherwise the value it holds, which may itself be \<open>undefined\<close>.
\<close>

fun property_value :: "dval option \<Rightarrow> dval" where
  "property_value None = Undef"
| "property_value (Some v) = v"

fun display_eq :: "display_value option \<Rightarrow> display_value option \<Rightarrow> bool" where
  "display_eq (Some (Scalar v)) (Some (Scalar w)) = js_num_eq v w"
| "display_eq None None = True"
| "display_eq _ _ = False"

definition isEqualSegment :: "externals \<Rightarrow> segment option \<Rightarrow> segment option \<Rightarrow> error + bool" where
  "isEqualSegment env seg1 seg2 =
     (case (seg1, seg2) of
        (Some s1, Some s2) \<Rightarrow>
          let isEqual = (dval_eq (number s1) (number s2) \<and> dval_eq (label s1) (label s2)
                          \<and> dval_eq (algorithmType s1) (algorithmType s2)) in
          and_then (case displayValue s1 of
                  None \<Rightarrow> Inl TypeError
                | Some (RGB c1) \<Rightarrow>
                    (case displayValue s2 of
                       None \<Rightarrow> Inl TypeError
                     | Some (RGB c2) \<Rightarrow> Inr (isEqual \<and> isEqualRgb env c1 c2)
                     | Some (Scalar w) \<Rightarrow> Inr False)
                | Some (Scalar v) \<Rightarrow> Inr (isEqual \<and> display_eq (displayValue s1) (displayValue s2)))
            (\<lambda>isEqual.
               case property_value (algorithmName s1) of
                 Undef \<Rightarrow> Inr isEqual
               | n1 \<Rightarrow>
                   (case property_value (algorithmName s2) of
                      Undef \<Rightarrow> Inr False
                    | n2 \<Rightarrow> Inr (isEqual \<and> dval_eq n1 n2)))
      | _ \<Rightarrow> Inr False)"

definition isSimilarSegment :: "externals \<Rightarrow> segment option \<Rightarrow> segment option \<Rightarrow> error + bool" where
  "isSimilarSegment env seg1 seg2 =
     (case (seg1, seg2) of
        (Some s1, Some s2) \<Rightarrow>
          let isSimilar = dval_eq (number s1) (number s2) in
          (case displayValue s1 of
             None \<Rightarrow> Inl TypeError
           | Some (RGB c1) \<Rightarrow>
               (case displayValue s2 of
                  None \<Rightarrow> Inl TypeError
                | Some (RGB c2) \<Rightarrow> Inr (isSimilar \<or> isEqualRgb env c1 c2)
                | Some (Scalar w) \<Rightarrow> Inr False)
           | Some (Scalar v) \<Rightarrow> Inr (isSimilar \<or> display_eq (displayValue s1) (displayValue s2)))
      | _ \<Rightarrow> Inr False)"

section \<open>Parsing numbers\<close>

text \<open>
  \<open>parseInt(s, 10)\<close> and \<open>parseFloat(s)\<close> skip leading white space, read an optional sign and
  the longest prefix that is a decimal literal (digits, with a fraction and an exponent for
  \<open>parseFloat\<close>), and return \<open>NaN\<close> when there is no digit; otherwise the result is the
  double nearest to the value of the literal. The literal \<open>Infinity\<close> is not modelled.
  \<open>parseFloat\<close> of a number is that number.
\<close>

definition is_digit :: "char \<Rightarrow> bool" where
  "is_digit c = (c \<in> set ''0123456789'')"

definition is_space :: "char \<Rightarrow> bool" where
  "is_space c = (c \<in> {CHR '' '', CHR 0x09, CHR 0x0A, CHR 0x0B, CHR 0x0C, CHR 0x0D})"

definition digits_value :: "string \<Rightarrow> nat" where
  "digits_value ds = foldl (\<lambda>n c. 10 * n + (of_char c - 48)) 0 ds"

fun split_sign :: "string \<Rightarrow> int \<times> string" where
  "split_sign [] = (1, [])"
| "split_sign (c # cs) =
     (if c = CHR ''-'' then (- 1, cs) else if c = CHR ''+'' then (1, cs) else (1, c # cs))"

definition parseInt10 :: "string \<Rightarrow> jsnum" where
  "parseInt10 s =
     (case split_sign (dropWhile is_space s) of (sg, s1) \<Rightarrow>
        let ds = takeWhile is_digit s1
        in if ds = [] then NaN else Fin (to_double (of_int (sg * int (digits_value ds)))))"

fun exponent_part :: "string \<Rightarrow> int" where
  "exponent_part [] = 0"
| "exponent_part (c # cs) =
     (if c = CHR ''e'' \<or> c = CHR ''E''
      then (case split_sign cs of (es, ds) \<Rightarrow> es * int (digits_value (takeWhile is_digit ds)))
      else 0)"

definition scale10 :: "real \<Rightarrow> int \<Rightarrow> real" where
  "scale10 x e = (if 0 \<le> e then x * 10 ^ nat e else x / 10 ^ nat (- e))"

definition parseFloat_string :: "string \<Rightarrow> jsnum" where
  "parseFloat_string s =
     (case split_sign (dropWhile is_space s) of (sg, s1) \<Rightarrow>
        let ip = takeWhile is_digit s1;
            r1 = dropWhile is_digit s1;
            fp = (case r1 of [] \<Rightarrow> [] | c # cs \<Rightarrow> if c = CHR ''.'' then takeWhile is_digit cs else []);
            r2 = (case r1 of [] \<Rightarrow> [] | c # cs \<Rightarrow> if c = CHR ''.'' then dropWhile is_digit cs else r1)
        in if ip = [] \<and> fp = [] then NaN
           else Fin (to_double (of_int sg * scale10 (real (digits_value ip)
                                                     + real (digits_value fp) / 10 ^ length fp)
                                                   (exponent_part r2))))"

fun parseFloat :: "dval \<Rightarrow> jsnum" where
  "parseFloat (Str s) = parseFloat_string s"
| "parseFloat (NumV x) = x"
| "parseFloat Undef = NaN"

section \<open>Spacing reader\<close>

definition getSpacingFromMeasure :: "measure_item \<Rightarrow> spacing_v" where
  "getSpacingFromMeasure measureItem =
     (case x00280030 measureItem of
        None \<Rightarrow> SpNull
      | Some pixelSpacing \<Rightarrow>
          Spacing ([parseFloat (js_idx pixelSpacing 0), parseFloat (js_idx pixelSpacing 1)]
                   @ (case x00180088 measureItem of
                        None \<Rightarrow> []
                      | Some sliceThickness \<Rightarrow> [parseFloat (js_idx sliceThickness 0)])))"

section \<open>Frame-info reader\<close>

record source_image =
  referencedSOPClassUID :: "dval option"
  referencedSOPInstanceUID :: "dval option"

record frameInfo =
  dimIndex :: "dval list"
  imagePosPat :: "jsnum list"
  derivationImages :: "source_image list list"
  refSegmentNumber :: dval
  imageOrientationPatient :: "dval list option"
  spacing :: "spacing_v option"

definition getSourceImage :: "source_image_item \<Rightarrow> source_image" where
  "getSourceImage item =
     \<lparr> referencedSOPClassUID = map_option (\<lambda>v. js_idx v 0) (x00081150 item),
       referencedSOPInstanceUID = map_option (\<lambda>v. js_idx v 0) (x00081155 item) \<rparr>"

definition getDerivationImages :: "func_group_item \<Rightarrow> source_image list list" where
  "getDerivationImages groupItem =
     (case x00089124 groupItem of
        None \<Rightarrow> []
      | Some derivationImageSq \<Rightarrow>
          map (\<lambda>d. case x00082112 d of None \<Rightarrow> [] | Some sourceImageSq \<Rightarrow> map getSourceImage sourceImageSq)
            derivationImageSq)"

text \<open>
  \<open>sq.value[0].key.value\<close> for a required sequence \<open>sq\<close>: a \<open>TypeError\<close> when the sequence
  element is absent, when it has no item, or when its first item has no such key.
\<close>

definition first_item_value :: "'i list option \<Rightarrow> ('i \<Rightarrow> dval list option) \<Rightarrow> error + dval list" where
  "first_item_value sq key =
     (case sq of
        None \<Rightarrow> Inl TypeError
      | Some [] \<Rightarrow> Inl TypeError
      | Some (item # items) \<Rightarrow> (case key item of None \<Rightarrow> Inl TypeError | Some v \<Rightarrow> Inr v))"

text \<open>The optional plane orientation and pixel measures of a functional group item.\<close>

definition groupOrientation :: "func_group_item \<Rightarrow> error + dval list option" where
  "groupOrientation groupItem =
     (case x00209116 groupItem of
        None \<Rightarrow> Inr None
      | Some [] \<Rightarrow> Inr None
      | Some (item # items) \<Rightarrow>
          (case x00200037 item of None \<Rightarrow> Inl TypeError | Some v \<Rightarrow> Inr (Some v)))"

definition groupSpacing :: "func_group_item \<Rightarrow> spacing_v option" where
  "groupSpacing groupItem =
     (case x00289110 groupItem of
        None \<Rightarrow> None
      | Some [] \<Rightarrow> None
      | Some (item # items) \<Rightarrow> Some (getSpacingFromMeasure item))"

text \<open>
  The image position is parsed in place: the loop stores each parsed number back into the
  \<open>value\<close> array of the element \<open>x00200032\<close> of the first plane position item, and the frame
  information shares that array. The function therefore returns the item as it is after the
  call, next to its result.
\<close>

definition store_position :: "func_group_item \<Rightarrow> jsnum list \<Rightarrow> func_group_item" where
  "store_position groupItem pos =
     (case x00209113 groupItem of
        Some (item # items) \<Rightarrow>
          groupItem \<lparr> x00209113 := Some (item \<lparr> x00200032 := Some (map NumV pos) \<rparr> # items) \<rparr>
      | _ \<Rightarrow> groupItem)"

definition getSegmentFrameInfo :: "func_group_item \<Rightarrow> (error + frameInfo) \<times> func_group_item" where
  "getSegmentFrameInfo groupItem =
     (case first_item_value (x00209111 groupItem) x00209157 of
        Inl e \<Rightarrow> (Inl e, groupItem)
      | Inr dimIndexV \<Rightarrow>
     (case first_item_value (x0062000A groupItem) x0062000B of
        Inl e \<Rightarrow> (Inl e, groupItem)
      | Inr refV \<Rightarrow>
     (case first_item_value (x00209113 groupItem) x00200032 of
        Inl e \<Rightarrow> (Inl e, groupItem)
      | Inr posV \<Rightarrow>
         (let pos = map parseFloat posV;
              groupItem' = store_position groupItem pos
          in (case groupOrientation groupItem' of
                Inl e \<Rightarrow> (Inl e, groupItem')
              | Inr orientation \<Rightarrow>
                  (Inr \<lparr> dimIndex = dimIndexV,
                         imagePosPat = pos,
                         derivationImages = getDerivationImages groupItem,
                         refSegmentNumber = js_idx refV 0,
                         imageOrientationPatient = orientation,
                         spacing = groupSpacing groupItem' \<rparr>,
                   groupItem'))))))"

fun getFrameInfos :: "func_group_item list \<Rightarrow> (error + frameInfo list) \<times> func_group_item list" where
  "getFrameInfos [] = (Inr [], [])"
| "getFrameInfos (groupItem # rest) =
     (case getSegmentFrameInfo groupItem of
        (Inl e, groupItem') \<Rightarrow> (Inl e, groupItem' # rest)
      | (Inr info, groupItem') \<Rightarrow>
          (case getFrameInfos rest of
             (Inl e, rest') \<Rightarrow> (Inl e, groupItem' # rest')
           | (Inr infos, rest') \<Rightarrow> (Inr (info # infos), groupItem' # rest')))"

section \<open>Position-set builder\<close>

text \<open>
  The inner \<open>while\<close> loop of the gap filling, for the pair of positions whose first has
  in-plane coordinates \<open>x\<close>, \<open>y\<close> and whose second has through-plane coordinate \<open>z1\<close>. The
  loop need not terminate: \<open>None\<close> is the result of a run that never ends.
\<close>

partial_function (option) fillGap ::
  "jsnum \<Rightarrow> jsnum \<Rightarrow> jsnum \<Rightarrow> jsnum \<Rightarrow> jsnum \<Rightarrow> jsnum list list \<Rightarrow> jsnum list list option" where
  "fillGap x y z1 sliceSpacing nextZ posPats =
     (if js_ge (js_abs (double_sub nextZ z1)) sliceSpacing
      then fillGap x y z1 sliceSpacing (double_sub nextZ sliceSpacing) (posPats @ [[x, y, nextZ]])
      else Some posPats)"

declare fillGap.simps [code]

text \<open>
  The outer loop over the sorted positions \<open>p # rest\<close> (the list is not empty), with the
  positions pushed so far.
\<close>

fun addMissingPosPats ::
  "jsnum \<Rightarrow> jsnum list \<Rightarrow> jsnum list list \<Rightarrow> jsnum list list \<Rightarrow> jsnum list list option" where
  "addMissingPosPats sliceSpacing p [] posPats = Some (posPats @ [p])"
| "addMissingPosPats sliceSpacing p (q # rest) posPats =
     (case fillGap (js_nth p 0) (js_nth p 1) (js_nth q 2) sliceSpacing
             (double_sub (js_nth p 2) sliceSpacing) (posPats @ [p]) of
        None \<Rightarrow> None
      | Some posPats' \<Rightarrow> addMissingPosPats sliceSpacing q rest posPats')"

text \<open>
  The completed list as the specification words it, for positions with finite coordinates:
  between two consecutive positions \<open>p\<close> and \<open>q\<close> the synthetic positions keep the in-plane
  coordinates of \<open>p\<close> and step down from \<open>p.z - s\<close> by \<open>s\<close>.
\<close>

definition zof :: "jsnum list \<Rightarrow> real" where
  "zof p = (case js_nth p 2 of Fin z \<Rightarrow> z | NaN \<Rightarrow> 0)"




section \<open>Pixel buffers\<close>

text \<open>
  The pixel buffer is an integer typed array. Its constructor decides how a number is
  converted when it is stored in the output buffer (truncation, then wrap-around to the
  width of the element; \<open>NaN\<close> is stored as 0). A write at an index outside the array
  changes no element.
\<close>

datatype array_ctor = Uint8Array | Int8Array | Uint16Array | Int16Array | Uint32Array | Int32Array

fun ctor_bits :: "array_ctor \<Rightarrow> nat" where
  "ctor_bits Uint8Array = 8"
| "ctor_bits Int8Array = 8"
| "ctor_bits Uint16Array = 16"
| "ctor_bits Int16Array = 16"
| "ctor_bits Uint32Array = 32"
| "ctor_bits Int32Array = 32"

fun ctor_signed :: "array_ctor \<Rightarrow> bool" where
  "ctor_signed Int8Array = True"
| "ctor_signed Int16Array = True"
| "ctor_signed Int32Array = True"
| "ctor_signed _ = False"

definition to_element :: "array_ctor \<Rightarrow> jsnum \<Rightarrow> int" where
  "to_element c v =
     (case v of
        NaN \<Rightarrow> 0
      | Fin x \<Rightarrow>
          let m = 2 ^ ctor_bits c;
              k = (if 0 \<le> x then \<lfloor>x\<rfloor> else \<lceil>x\<rceil>) mod m
          in if ctor_signed c \<and> m \<le> 2 * k then k - m else k)"

record typed_array =
  ctor :: array_ctor
  elems :: "int list"

definition array_set :: "typed_array \<Rightarrow> int \<Rightarrow> jsnum \<Rightarrow> typed_array" where
  "array_set a i v =
     (if 0 \<le> i \<and> i < int (length (elems a))
      then a \<lparr> elems := (elems a)[nat i := to_element (ctor a) v] \<rparr>
      else a)"

text \<open>\<open>pixelBuffer[i] !== 0\<close>: a read outside the array yields \<open>undefined\<close>, which is not 0.\<close>

definition pixel_set :: "typed_array \<Rightarrow> nat \<Rightarrow> bool" where
  "pixel_set a i = (if i < length (elems a) then elems a ! i \<noteq> 0 else True)"

section \<open>Volume assembler\<close>

subsection \<open>Reading the header\<close>

text \<open>
  Lines up to the first frame-count check: the slice size and the number of frames. The
  quotient of the buffer length by the slice size is kept as it is, not rounded, which
  does not change the comparison (lemma \<open>quotient_rounding\<close>).
\<close>

definition readFrames :: "dicomElements \<Rightarrow> jsnum" where
  "readFrames d =
     (case x00280008 d of
        None \<Rightarrow> Fin 1
      | Some frames \<Rightarrow> if frames = [] then Fin 1 else parseInt10 frames)"

definition readHeader :: "externals \<Rightarrow> dicomElements \<Rightarrow> typed_array \<Rightarrow> error + nat \<times> jsnum" where
  "readHeader env d pixelBuffer =
     and_then (checkDicomSeg env d) (\<lambda>u.
       case x00280011 d of
         None \<Rightarrow> Inl MissingColumns
       | Some columns \<Rightarrow>
           if columns = 0 then Inl MissingColumns
           else (case x00280010 d of
                   None \<Rightarrow> Inl MissingRows
                 | Some rows \<Rightarrow>
                     if rows = 0 then Inl MissingRows
                     else (let sliceSize = columns * rows;
                               frames = readFrames d
                           in if \<not> js_num_eq frames
                                     (Fin (real (length (elems pixelBuffer)) / real sliceSize))
                              then Inl BufferFramesNotEqual
                              else Inr (sliceSize, frames))))"

subsection \<open>Segments and shared functional groups\<close>

text \<open>The loop over the segment sequence: the segments and whether one of them has a colour
  display value. Reading \<open>.r\<close> of an absent display value throws.\<close>

fun getSegments :: "externals \<Rightarrow> segment_item list \<Rightarrow> error + segment list \<times> bool" where
  "getSegments env [] = Inr ([], False)"
| "getSegments env (item # items) =
     and_then (getSegment env item) (\<lambda>segment.
       case displayValue segment of
         None \<Rightarrow> Inl TypeError
       | Some dv \<Rightarrow>
           and_then (getSegments env items) (\<lambda>(segments, storeAsRGB).
             Inr (segment # segments,
                  (case dv of RGB c \<Rightarrow> True | Scalar v \<Rightarrow> False) \<or> storeAsRGB)))"

definition getSharedGroups :: "dicomElements \<Rightarrow> error + spacing_v option \<times> dval list option" where
  "getSharedGroups d =
     (case x52009229 d of
        None \<Rightarrow> Inr (None, None)
      | Some [] \<Rightarrow> Inr (None, None)
      | Some (funcGroup0 # others) \<Rightarrow>
          and_then (groupOrientation funcGroup0) (\<lambda>orientation.
            Inr (groupSpacing funcGroup0,
                 map_option (map (\<lambda>x. NumV (parseFloat x))) orientation)))"

subsection \<open>Checking the frame informations\<close>

definition includesPosPat :: "jsnum list list \<Rightarrow> jsnum list \<Rightarrow> bool" where
  "includesPosPat arr val = list_ex (\<lambda>arrVal. equalPosPat val arrVal) arr"

definition findIndexPosPat :: "jsnum list list \<Rightarrow> jsnum list \<Rightarrow> int" where
  "findIndexPosPat arr val =
     (if includesPosPat arr val
      then int (length (takeWhile (\<lambda>arrVal. \<not> equalPosPat val arrVal) arr))
      else - 1)"

definition arrayEquals :: "dval list \<Rightarrow> dval list \<Rightarrow> bool" where
  "arrayEquals arr0 arr1 = list_all2 dval_eq arr0 arr1"

definition pushUnique :: "jsnum list list \<Rightarrow> jsnum list \<Rightarrow> jsnum list list" where
  "pushUnique framePosPats pos =
     (if includesPosPat framePosPats pos then framePosPats else framePosPats @ [pos])"

text \<open>One iteration of the loop that collects the positions and settles the orientation and
  the spacing; the state is the triple of the three variables.\<close>

definition checkOrientation :: "dval list option \<Rightarrow> frameInfo \<Rightarrow> error + dval list option" where
  "checkOrientation current info =
     (case imageOrientationPatient info of
        None \<Rightarrow> Inr current
      | Some frameOrientation \<Rightarrow>
          (case current of
             None \<Rightarrow> Inr (Some frameOrientation)
           | Some orientation \<Rightarrow>
               if \<not> arrayEquals orientation frameOrientation then Inl MultiOrientation
               else Inr current))"

definition checkSpacing :: "externals \<Rightarrow> spacing_v option \<Rightarrow> frameInfo \<Rightarrow> error + spacing_v option" where
  "checkSpacing env current info =
     (case spacing info of
        None \<Rightarrow> Inr current
      | Some frameSpacing \<Rightarrow>
          (case current of
             None \<Rightarrow> Inr (Some frameSpacing)
           | Some SpNull \<Rightarrow> Inl TypeError
           | Some (Spacing vs) \<Rightarrow>
               if \<not> spacing_equals env vs frameSpacing then Inl MultiResolution
               else Inr current))"

fun checkFrameInfos ::
  "externals \<Rightarrow> frameInfo list \<Rightarrow> jsnum list list \<times> dval list option \<times> spacing_v option
     \<Rightarrow> error + jsnum list list \<times> dval list option \<times> spacing_v option" where
  "checkFrameInfos env [] state = Inr state"
| "checkFrameInfos env (info # infos) (framePosPats, orientation, sp) =
     and_then (checkOrientation orientation info) (\<lambda>orientation'.
     and_then (checkSpacing env sp info) (\<lambda>sp'.
       checkFrameInfos env infos (pushUnique framePosPats (imagePosPat info), orientation', sp')))"

subsection \<open>Merging the frames\<close>

text \<open>
  The value stored for a pixel that is set. With a colour buffer the three components of
  the display value are stored (a scalar has none: \<open>undefined\<close> is stored, that is
  \<open>NaN\<close>); otherwise the display value itself is stored, and a colour or an absent display
  value converts to \<open>NaN\<close>.
\<close>

definition writePixel ::
  "bool \<Rightarrow> display_value option \<Rightarrow> typed_array \<Rightarrow> int \<Rightarrow> error + typed_array" where
  "writePixel storeAsRGB pixelValue buffer offset =
     (if storeAsRGB
      then (case pixelValue of
              None \<Rightarrow> Inl TypeError
            | Some (RGB c) \<Rightarrow>
                Inr (array_set (array_set (array_set buffer offset (r c)) (offset + 1) (g c))
                       (offset + 2) (b c))
            | Some (Scalar v) \<Rightarrow>
                Inr (array_set (array_set (array_set buffer offset NaN) (offset + 1) NaN)
                       (offset + 2) NaN))
      else Inr (array_set buffer offset
                  (case pixelValue of Some (Scalar v) \<Rightarrow> v | _ \<Rightarrow> NaN)))"

text \<open>The loop over the pixels \<open>l\<close> of one frame, from the pixel \<open>l\<close> on.\<close>

function mergePixels ::
  "bool \<Rightarrow> display_value option \<Rightarrow> typed_array \<Rightarrow> nat \<Rightarrow> nat \<Rightarrow> int \<Rightarrow> nat \<Rightarrow> typed_array
     \<Rightarrow> error + typed_array" where
  "mergePixels storeAsRGB pixelValue pixelBuffer sliceSize frameOffset sliceOffset l buffer =
     (if l < sliceSize
      then and_then
             (if pixel_set pixelBuffer (frameOffset + l)
              then writePixel storeAsRGB pixelValue buffer
                     ((if storeAsRGB then 3 else 1) * (sliceOffset + int l))
              else Inr buffer)
             (mergePixels storeAsRGB pixelValue pixelBuffer sliceSize frameOffset sliceOffset (Suc l))
      else Inr buffer)"
  by pat_completeness auto
termination
proof (relation "measure (\<lambda>(rgbflag, pv, pb, sliceSize, fo, so, l, buf). sliceSize - l)")
  show "wf (measure (\<lambda>(rgbflag, pv, pb, sliceSize, fo, so, l, buf). sliceSize - l))" by simp
next
  fix storeAsRGB :: bool and pixelValue :: "display_value option" and pixelBuffer :: typed_array
    and sliceSize frameOffset :: nat and sliceOffset :: int and l :: nat and buffer :: typed_array
    and x :: typed_array
  assume "l < sliceSize"
  then show "((storeAsRGB, pixelValue, pixelBuffer, sliceSize, frameOffset, sliceOffset, Suc l, x),
              (storeAsRGB, pixelValue, pixelBuffer, sliceSize, frameOffset, sliceOffset, l, buffer))
             \<in> measure (\<lambda>(rgbflag, pv, pb, sliceSize, fo, so, l, buf). sliceSize - l)"
    by simp
qed

declare mergePixels.simps [simp del]

text \<open>The loop over the frames, from the frame \<open>f\<close> on: the frame finds its slice by its
  position and its display value by its segment number.\<close>

fun mergeFrames ::
  "bool \<Rightarrow> segment list \<Rightarrow> jsnum list list \<Rightarrow> typed_array \<Rightarrow> nat \<Rightarrow> nat \<Rightarrow> frameInfo list
     \<Rightarrow> typed_array \<Rightarrow> error + typed_array" where
  "mergeFrames storeAsRGB segments posPats pixelBuffer sliceSize f [] buffer = Inr buffer"
| "mergeFrames storeAsRGB segments posPats pixelBuffer sliceSize f (info # infos) buffer =
     (let sliceIndex = findIndexPosPat posPats (imagePosPat info);
          frameOffset = sliceSize * f;
          sliceOffset = int sliceSize * sliceIndex
      in case find (\<lambda>item. dval_eq (number item) (refSegmentNumber info)) segments of
           None \<Rightarrow> Inl TypeError
         | Some frameSegment \<Rightarrow>
             and_then (mergePixels storeAsRGB (displayValue frameSegment) pixelBuffer sliceSize
                         frameOffset sliceOffset 0 buffer)
               (mergeFrames storeAsRGB segments posPats pixelBuffer sliceSize (Suc f) infos))"

subsection \<open>The image\<close>

text \<open>
  Modelled from the spec: the geometry and the image are external types constructed by the
  factory. The geometry holds the origin (the first completed position), the size, the
  spacing and the per-slice origins (the completed positions, in order); the image holds
  the geometry, the buffer, one identifier per slice, the photometric interpretation when
  one was set, and the meta data.
\<close>

definition point3DFromArray :: "jsnum list \<Rightarrow> jsnum \<times> jsnum \<times> jsnum" where
  "point3DFromArray arr = (js_nth arr 0, js_nth arr 1, js_nth arr 2)"

record geometry =
  origin :: "jsnum \<times> jsnum \<times> jsnum"
  geometry_size :: "nat list"
  geometry_spacing :: "jsnum list"
  origins :: "(jsnum \<times> jsnum \<times> jsnum) list"

record meta =
  Modality :: string
  SegmentationType :: string
  DimensionOrganizationType :: string
  DimensionOrganizations :: "dval list"
  DimensionIndices :: "dimension_index list"
  BitsStored :: nat
  SeriesInstanceUID :: dval
  ImageOrientationPatient :: "dval list"
  custom_segments :: "segment list"
  custom_frameInfos :: "frameInfo list"

record mask_image =
  image_geometry :: geometry
  image_buffer :: typed_array
  image_uids :: "nat list"
  photometricInterpretation :: "string option"
  image_meta :: meta

subsection \<open>MaskFactory.prototype.create\<close>

text \<open>
  The part of \<open>create\<close> after the frame informations are read. The result is \<open>None\<close> when
  the gap filling never ends.
\<close>

definition assemble ::
  "externals \<Rightarrow> dicomElements \<Rightarrow> typed_array \<Rightarrow> nat \<Rightarrow> dimension \<Rightarrow> segment list \<Rightarrow> bool
     \<Rightarrow> spacing_v option \<Rightarrow> dval list option \<Rightarrow> frameInfo list \<Rightarrow> (error + mask_image) option" where
  "assemble env d pixelBuffer sliceSize dimension segments storeAsRGB spacing0 orientation0 frameInfos =
     (case checkFrameInfos env frameInfos ([], orientation0, spacing0) of
        Inl e \<Rightarrow> Some (Inl e)
      | Inr (unsorted, orientation, sp) \<Rightarrow>
     (case sp of
        None \<Rightarrow> Some (Inl NoSpacing)
      | Some spacingV \<Rightarrow>
     (case orientation of
        None \<Rightarrow> Some (Inl NoOrientation)
      | Some imageOrientation \<Rightarrow>
     (case spacingV of
        SpNull \<Rightarrow> Some (Inl TypeError)
      | Spacing spacingValues \<Rightarrow>
     (case array_sort comparePosPat unsorted of
        [] \<Rightarrow> Some (Inl TypeError)
      | p # rest \<Rightarrow>
     (case addMissingPosPats (js_nth spacingValues 2) p rest [] of
        None \<Rightarrow> None
      | Some posPats \<Rightarrow>
          (let numberOfSlices = length posPats;
               mul = (if storeAsRGB then 3 else 1);
               buffer = \<lparr> ctor = ctor pixelBuffer,
                          elems = replicate (mul * sliceSize * numberOfSlices) 0 \<rparr>
           in Some (and_then
                (mergeFrames storeAsRGB segments posPats pixelBuffer sliceSize 0 frameInfos buffer)
                (\<lambda>merged. Inr
                   \<lparr> image_geometry =
                       \<lparr> origin = point3DFromArray (posPats ! 0),
                         geometry_size = getImageSize d,
                         geometry_spacing = spacingValues,
                         origins = map point3DFromArray posPats \<rparr>,
                     image_buffer = merged,
                     image_uids = [0..<numberOfSlices],
                     photometricInterpretation = (if storeAsRGB then Some ''RGB'' else None),
                     image_meta =
                       \<lparr> Modality = ''SEG'',
                         SegmentationType = ''BINARY'',
                         DimensionOrganizationType = ''3D'',
                         DimensionOrganizations = organizations dimension,
                         DimensionIndices = indices dimension,
                         BitsStored = 8,
                         SeriesInstanceUID = x0020000E d,
                         ImageOrientationPatient = imageOrientation,
                         custom_segments = segments,
                         custom_frameInfos = frameInfos \<rparr> \<rparr>)))))))))"

text \<open>
  \<open>create\<close> returns its result together with its two inputs as they are after the call:
  the root element, whose per-frame functional groups the frame-info reader has written to,
  and the pixel buffer.
\<close>

definition create ::
  "externals \<Rightarrow> dicomElements \<Rightarrow> typed_array
     \<Rightarrow> ((error + mask_image) \<times> dicomElements \<times> typed_array) option" where
  "create env d pixelBuffer =
     (case readHeader env d pixelBuffer of
        Inl e \<Rightarrow> Some (Inl e, d, pixelBuffer)
      | Inr (sliceSize, frames) \<Rightarrow>
     (case getDimensionOrganization env d of
        Inl e \<Rightarrow> Some (Inl e, d, pixelBuffer)
      | Inr dimension \<Rightarrow>
     (case x00620002 d of
        None \<Rightarrow> Some (Inl MissingSegSequence, d, pixelBuffer)
      | Some segSequence \<Rightarrow>
     (case getSegments env segSequence of
        Inl e \<Rightarrow> Some (Inl e, d, pixelBuffer)
      | Inr (segments, storeAsRGB) \<Rightarrow>
     (case getSharedGroups d of
        Inl e \<Rightarrow> Some (Inl e, d, pixelBuffer)
      | Inr (spacing0, orientation0) \<Rightarrow>
     (case x52009230 d of
        None \<Rightarrow> Some (Inl MissingPerFrameSeq, d, pixelBuffer)
      | Some perFrame \<Rightarrow>
          if \<not> js_num_eq frames (Fin (real (length perFrame)))
          then Some (Inl PerFrameFramesNotEqual, d, pixelBuffer)
          else (case getFrameInfos perFrame of
                  (Inl e, perFrame') \<Rightarrow> Some (Inl e, d \<lparr> x52009230 := Some perFrame' \<rparr>, pixelBuffer)
                | (Inr frameInfos, perFrame') \<Rightarrow>
                    map_option (\<lambda>res. (res, d \<lparr> x52009230 := Some perFrame' \<rparr>, pixelBuffer))
                      (assemble env d pixelBuffer sliceSize dimension segments storeAsRGB
                         spacing0 orientation0 frameInfos))))))))"

section \<open>Vocabulary of the properties\<close>

text \<open>
  What the frame-info reader may have done to a functional group item: nothing, or the
  replacement of the entries of the image position of its first plane position item by
  their parsed numbers.
\<close>

definition parsed_in_place :: "func_group_item \<Rightarrow> func_group_item \<Rightarrow> bool" where
  "parsed_in_place groupItem groupItem' =
     (groupItem' = groupItem \<or>
      (case x00209113 groupItem of
         Some (item # items) \<Rightarrow>
           (case x00200032 item of
              Some raw \<Rightarrow>
                groupItem' = groupItem \<lparr> x00209113 :=
                  Some (item \<lparr> x00200032 := Some (map (\<lambda>v. NumV (parseFloat v)) raw) \<rparr> # items) \<rparr>
            | None \<Rightarrow> False)
       | _ \<Rightarrow> False))"

text \<open>The decimal numeral of a natural number, as the text of an integer string.\<close>

definition digit_char :: "nat \<Rightarrow> char" where
  "digit_char m = ''0123456789'' ! m"

fun decimal :: "nat \<Rightarrow> string" where
  "decimal n =
     (if n < 10 then [digit_char n] else decimal (n div 10) @ [digit_char (n mod 10)])"

declare decimal.simps [simp del]

text \<open>
  Vocabulary for the merge. The number of channels of the output buffer; the number stored
  in channel \<open>c\<close> of a voxel for a display value; and whether the frame number \<open>f\<close>, with
  frame information \<open>info\<close>, marks the output element \<open>j\<close>: the pixel \<open>l\<close> that \<open>j\<close> stands
  for in the frame's slice lies in the frame and is set in the pixel buffer.
\<close>

definition channels :: "bool \<Rightarrow> nat" where
  "channels storeAsRGB = (if storeAsRGB then 3 else 1)"

definition channel_value :: "bool \<Rightarrow> display_value option \<Rightarrow> nat \<Rightarrow> jsnum" where
  "channel_value storeAsRGB pixelValue c =
     (if storeAsRGB
      then (case pixelValue of
              Some (RGB col) \<Rightarrow> (if c = 0 then r col else if c = 1 then g col else b col)
            | _ \<Rightarrow> NaN)
      else (case pixelValue of Some (Scalar v) \<Rightarrow> v | _ \<Rightarrow> NaN))"

definition frame_marks ::
  "bool \<Rightarrow> jsnum list list \<Rightarrow> typed_array \<Rightarrow> nat \<Rightarrow> nat \<Rightarrow> frameInfo \<Rightarrow> nat \<Rightarrow> bool" where
  "frame_marks storeAsRGB posPats pixelBuffer sliceSize f info j =
     (let l = int j div int (channels storeAsRGB)
                - int sliceSize * findIndexPosPat posPats (imagePosPat info)
      in 0 \<le> l \<and> l < int sliceSize \<and> pixel_set pixelBuffer (sliceSize * f + nat l))"

section \<open>Sample collaborators and inputs\<close>

text \<open>
  A concrete choice of the external collaborators, on which the model can be evaluated:
  cleaning strips surrounding spaces, the transfer-syntax table knows the JPEG 2000, JPEG
  baseline, JPEG lossless and RLE syntaxes, and colours are compared component by
  component. The colour conversions are simple stand-ins (a scaling and a relabelling of
  the three components).
\<close>

definition trim_spaces :: "string \<Rightarrow> string" where
  "trim_spaces s = rev (dropWhile (\<lambda>c. c = CHR '' '') (rev (dropWhile (\<lambda>c. c = CHR '' '') s)))"

fun sample_cleanString :: "dval \<Rightarrow> dval" where
  "sample_cleanString (Str s) = Str (trim_spaces s)"
| "sample_cleanString v = v"

definition sample_decompression :: "dval \<Rightarrow> string option" where
  "sample_decompression syntax =
     (if syntax = Str ''1.2.840.10008.1.2.4.90'' \<or> syntax = Str ''1.2.840.10008.1.2.4.91''
      then Some ''jpeg2000''
      else if syntax = Str ''1.2.840.10008.1.2.4.50'' \<or> syntax = Str ''1.2.840.10008.1.2.4.51''
      then Some ''jpeg-baseline''
      else if syntax = Str ''1.2.840.10008.1.2.4.57'' \<or> syntax = Str ''1.2.840.10008.1.2.4.70''
      then Some ''jpeg-lossless''
      else if syntax = Str ''1.2.840.10008.1.2.5'' then Some ''rle''
      else None)"

fun sample_number :: "dval \<Rightarrow> jsnum" where
  "sample_number (NumV x) = x"
| "sample_number _ = NaN"

definition sample_externals :: externals where
  "sample_externals =
     \<lparr> cleanString = sample_cleanString,
       getSyntaxDecompressionName = sample_decompression,
       uintLabToLab = (\<lambda>(l, a, b'). (sample_number l, sample_number a, sample_number b')),
       cielabToSrgb = (\<lambda>(l, a, b'). \<lparr> r = l, g = a, b = b' \<rparr>),
       isEqualRgb = (\<lambda>c1 c2. js_num_eq (r c1) (r c2) \<and> js_num_eq (g c1) (g c2)
                                 \<and> js_num_eq (b c1) (b c2)),
       spacing_equals = (\<lambda>vs other. case other of SpNull \<Rightarrow> False
                          | Spacing ws \<Rightarrow> list_all2 js_num_eq vs ws) \<rparr>"

text \<open>A root element of an uncompressed binary segmentation, with only the three validated
  tags set; the variants used below change one tag each.\<close>

definition sample_header :: dicomElements where
  "sample_header =
     \<lparr> x00020010 = Str ''1.2.840.10008.1.2.1'', x00620001 = Str ''BINARY '',
       x00209311 = Str ''3D'', x00280011 = None, x00280010 = None, x00280008 = None,
       x00209221 = None, x00209222 = None, x00620002 = None, x52009229 = None,
       x52009230 = None, x0020000E = Undef, getImageSize = [] \<rparr>"

text \<open>A segment item that carries the recommended display grayscale value 5, and two
  segments with the same number, one with a colour and one with a scalar display value.\<close>

definition sample_gray_item :: segment_item where
  "sample_gray_item =
     \<lparr> x00620004 = Some [NumV (Fin 1)], x00620005 = Some [Str ''liver''],
       x00620008 = Some [Str ''MANUAL''], x00620009 = None,
       x0062000C = Some [NumV (Fin 5)], x0062000D = None \<rparr>"

definition sample_rgb_segment :: segment where
  "sample_rgb_segment =
     \<lparr> number = NumV (Fin 1), label = Str ''liver'', algorithmType = Str ''MANUAL'',
       algorithmName = None,
       displayValue = Some (RGB \<lparr> r = Fin 10, g = Fin 20, b = Fin 30 \<rparr>) \<rparr>"

definition sample_scalar_segment :: segment where
  "sample_scalar_segment =
     \<lparr> number = NumV (Fin 1), label = Str ''liver'', algorithmType = Str ''MANUAL'',
       algorithmName = None, displayValue = Some (Scalar (Fin 5)) \<rparr>"

text \<open>
  A complete segmentation object: one segment with a CIELab display value, rows = 2,
  columns = 2, three frames at the positions \<open>z = 10, 10, 6\<close> (given as decimal strings),
  a shared functional group with the orientation and the spacing \<open>(1, 1, 2)\<close>, no dimension
  organization type, and a pixel buffer of three frames of four pixels.
\<close>

definition sample_segment_item :: segment_item where
  "sample_segment_item =
     \<lparr> x00620004 = Some [NumV (Fin 1)], x00620005 = Some [Str ''liver''],
       x00620008 = Some [Str ''MANUAL''], x00620009 = None,
       x0062000C = None, x0062000D = Some [NumV (Fin 10), NumV (Fin 20), NumV (Fin 30)] \<rparr>"

definition sample_shared :: func_group_item where
  "sample_shared =
     \<lparr> x00089124 = None, x00209111 = None, x0062000A = None, x00209113 = None,
       x00209116 = Some [\<lparr> x00200037 = Some [Str ''1'', Str ''0'', Str ''0'',
                                              Str ''0'', Str ''1'', Str ''0''] \<rparr>],
       x00289110 = Some [\<lparr> x00280030 = Some [Str ''1'', Str ''1''],
                           x00180088 = Some [Str ''2''] \<rparr>] \<rparr>"

definition sample_frame :: "dval list \<Rightarrow> func_group_item" where
  "sample_frame position =
     \<lparr> x00089124 = None,
       x00209111 = Some [\<lparr> x00209157 = Some [NumV (Fin 1), NumV (Fin 1)] \<rparr>],
       x0062000A = Some [\<lparr> x0062000B = Some [NumV (Fin 1)] \<rparr>],
       x00209113 = Some [\<lparr> x00200032 = Some position \<rparr>],
       x00209116 = None, x00289110 = None \<rparr>"

definition sample_root :: dicomElements where
  "sample_root =
     \<lparr> x00020010 = Str ''1.2.840.10008.1.2.1'', x00620001 = Str ''BINARY'',
       x00209311 = Undef, x00280011 = Some 2, x00280010 = Some 2, x00280008 = Some ''3'',
       x00209221 = Some [\<lparr> x00209164 = Some [Str ''1.2.3''], x00209165 = None,
                           x00209421 = None \<rparr>],
       x00209222 = None,
       x00620002 = Some [sample_segment_item],
       x52009229 = Some [sample_shared],
       x52009230 = Some [sample_frame [Str ''0'', Str ''0'', Str ''10''],
                         sample_frame [Str ''0'', Str ''0'', Str ''10''],
                         sample_frame [Str ''0'', Str ''0'', Str ''6'']],
       x0020000E = Str ''1.2.3.4'', getImageSize = [2, 2, 1] \<rparr>"

text \<open>The frame information read from a sample frame at \<open>(0, 0, z)\<close>.\<close>

definition sample_info :: "real \<Rightarrow> frameInfo" where
  "sample_info z =
     \<lparr> dimIndex = [NumV (Fin 1), NumV (Fin 1)], imagePosPat = [Fin 0, Fin 0, Fin z],
       derivationImages = [], refSegmentNumber = NumV (Fin 1),
       imageOrientationPatient = None, spacing = None \<rparr>"

definition sample_pixels :: typed_array where
  "sample_pixels = \<lparr> ctor = Uint8Array, elems = [1, 0, 0, 1, 0, 1, 0, 0, 0, 0, 1, 1] \<rparr>"

text \<open>
  Two scalar segments and one frame, or two frames on the same slice, of two by two pixels.
\<close>

definition sample_scalar_segments :: "segment list" where
  "sample_scalar_segments =
     [sample_scalar_segment,
      sample_scalar_segment \<lparr> number := NumV (Fin 2), displayValue := Some (Scalar (Fin 7)) \<rparr>]"

definition sample_overlap_infos :: "frameInfo list" where
  "sample_overlap_infos = [sample_info 0, (sample_info 0) \<lparr> refSegmentNumber := NumV (Fin 2) \<rparr>]"

text \<open>
  The scalar decode scenario of the specification: one segment that carries the recommended
  display grayscale value 5, rows = 2, columns = 2, one frame at \<open>(0, 0, 0)\<close>, and the pixel
  pattern \<open>[1, 0, 0, 1]\<close>.
\<close>

definition scalar_scenario :: dicomElements where
  "scalar_scenario =
     sample_root \<lparr> x00280008 := Some ''1'', x00620002 := Some [sample_gray_item],
                   x52009230 := Some [sample_frame [Str ''0'', Str ''0'', Str ''0'']] \<rparr>"

definition scalar_pixels :: typed_array where
  "scalar_pixels = \<lparr> ctor = Uint8Array, elems = [1, 0, 0, 1] \<rparr>"

section \<open>Properties of the double arithmetic\<close>

lemma bit_length_bounds:
  "0 < n \<Longrightarrow> 1 \<le> bit_length n \<and> 2 ^ nat (bit_length n - 1) \<le> n \<and> n < 2 ^ nat (bit_length n)"
proof (induction n rule: bit_length.induct)
  case (1 n)
  show ?case
  proof (cases "n div 2 \<le> 0")
    case True
    then have n1: "n = 1" using 1(2) by linarith
    have "bit_length (1::int) = 1"
      by (subst bit_length.simps, subst bit_length.simps) simp
    then show ?thesis using n1 by simp
  next
    case False
    then have pos: "0 < n div 2" by simp
    have ih: "1 \<le> bit_length (n div 2) \<and> 2 ^ nat (bit_length (n div 2) - 1) \<le> n div 2
        \<and> n div 2 < 2 ^ nat (bit_length (n div 2))"
      using 1(1)[OF _ pos] 1(2) by simp
    define b where "b = bit_length (n div 2)"
    have bl: "bit_length n = 1 + b"
      using 1(2) unfolding b_def by (subst bit_length.simps) simp
    have b1: "1 \<le> b" using ih by (simp add: b_def)
    have lo: "2 ^ nat (b - 1) \<le> n div 2" and hi: "n div 2 < 2 ^ nat b"
      using ih by (simp_all add: b_def)
    have e: "nat b = Suc (nat (b - 1))" using b1 by simp
    have "(2::int) ^ nat b = 2 * 2 ^ nat (b - 1)" unfolding e by simp
    also have "\<dots> \<le> 2 * (n div 2)" using lo by simp
    also have "\<dots> \<le> n" by simp
    finally have l: "2 ^ nat b \<le> n" .
    have "n div 2 + 1 \<le> 2 ^ nat b" using hi by simp
    then have "2 * (n div 2) + 2 \<le> 2 * 2 ^ nat b" by simp
    moreover have "n < 2 * (n div 2) + 2" by simp
    ultimately have h: "n < 2 * 2 ^ nat b" by linarith
    have e2: "nat (1 + b) = Suc (nat b)" using b1 by simp
    show ?thesis unfolding bl using b1 l h by (simp add: e2)
  qed
qed

text \<open>The binary exponent \<open>e\<close> of a positive \<open>x\<close> satisfies \<open>2^e \<le> x < 2^(e+1)\<close>.\<close>

lemma binary_exponent_bounds:
  assumes "0 < x"
  shows "power_int 2 (binary_exponent x) \<le> x \<and> x < power_int 2 (binary_exponent x + 1)"
proof (cases "1 \<le> x")
  case True
  define n where "n = \<lfloor>x\<rfloor>"
  have n: "0 < n" "of_int n \<le> x" "x < of_int n + 1" using True unfolding n_def by linarith+
  note b = bit_length_bounds[OF n(1)]
  define b' where "b' = bit_length n"
  have e: "binary_exponent x = b' - 1" using True by (simp add: binary_exponent_def n_def b'_def)
  have "2 ^ nat (b' - 1) \<le> n" using b unfolding b'_def by simp
  then have "(of_int (2 ^ nat (b' - 1)) :: real) \<le> of_int n" by (simp only: of_int_le_iff)
  then have lo: "(2::real) ^ nat (b' - 1) \<le> of_int n" by simp
  have "n + 1 \<le> 2 ^ nat b'" using b unfolding b'_def by simp
  then have "(of_int (n + 1) :: real) \<le> of_int (2 ^ nat b')" by (simp only: of_int_le_iff)
  then have hi: "of_int n + 1 \<le> (2::real) ^ nat b'" by simp
  have p1: "power_int (2::real) (b' - 1) = 2 ^ nat (b' - 1)"
    using b by (simp add: power_int_def b'_def)
  have p2: "power_int (2::real) (b' - 1 + 1) = 2 ^ nat b'"
    using b by (simp add: power_int_def b'_def)
  show ?thesis unfolding e p1 p2 using lo hi n by linarith
next
  case False
  then have x1: "x < 1" by simp
  define y where "y = 1 / x"
  have y1: "1 < y" using assms x1 by (simp add: y_def)
  define n where "n = \<lceil>y\<rceil> - 1"
  have n: "0 < n" "of_int n < y" "y \<le> of_int n + 1" using y1 unfolding n_def by linarith+
  note b = bit_length_bounds[OF n(1)]
  define b' where "b' = bit_length n"
  have e: "binary_exponent x = - b'" using False by (simp add: binary_exponent_def n_def b'_def y_def)
  have "2 ^ nat (b' - 1) \<le> n" using b unfolding b'_def by simp
  then have "(of_int (2 ^ nat (b' - 1)) :: real) \<le> of_int n" by (simp only: of_int_le_iff)
  then have lo: "(2::real) ^ nat (b' - 1) \<le> of_int n" by simp
  have "n + 1 \<le> 2 ^ nat b'" using b unfolding b'_def by simp
  then have "(of_int (n + 1) :: real) \<le> of_int (2 ^ nat b')" by (simp only: of_int_le_iff)
  then have hi: "of_int n + 1 \<le> (2::real) ^ nat b'" by simp
  have ylo: "(2::real) ^ nat (b' - 1) < y" using lo n by linarith
  have yhi: "y \<le> (2::real) ^ nat b'" using hi n by linarith
  have b1: "1 \<le> b'" using b by (simp add: b'_def)
  have p1: "power_int (2::real) (- b') = 1 / 2 ^ nat b'"
    using b1 by (simp add: power_int_def field_simps)
  have p2: "power_int (2::real) (- b' + 1) = 1 / 2 ^ nat (b' - 1)"
  proof (cases "b' = 1")
    case True
    then show ?thesis by simp
  next
    case False
    then have "- b' + 1 < 0" using b1 by simp
    moreover have "nat (- (- b' + 1)) = nat (b' - 1)" by simp
    ultimately show ?thesis by (simp add: power_int_def field_simps)
  qed
  have "1 / 2 ^ nat b' \<le> x"
    using yhi assms unfolding y_def by (simp add: field_simps)
  moreover have "x < 1 / 2 ^ nat (b' - 1)"
    using ylo assms unfolding y_def by (simp add: field_simps)
  ultimately show ?thesis unfolding e p1 p2 by simp
qed

lemma round_half_even_int: "round_half_even (of_int n) = n"
  by (simp add: round_half_even_def)

lemma round_half_even_near: "\<bar>of_int (round_half_even x) - x\<bar> \<le> 1 / 2"
proof -
  have "of_int \<lfloor>x\<rfloor> \<le> x" "x < of_int \<lfloor>x\<rfloor> + 1" by linarith+
  then show ?thesis
    by (auto simp: round_half_even_def Let_def)
qed

text \<open>
  A multiple \<open>m * 2^k\<close> with fewer than 54 bits in \<open>m\<close> and \<open>k\<close> not below the weight of the
  last bit of the smallest doubles is a double: rounding leaves it as it is.
\<close>

lemma to_double_exact:
  assumes k: "- 1074 \<le> k" and m: "\<bar>m\<bar> < 2 ^ 53"
  shows "to_double (of_int m * power_int 2 k) = of_int m * power_int 2 k"
proof (cases "m = 0")
  case True
  then show ?thesis by (simp add: to_double_def)
next
  case False
  define x :: real where "x = of_int m * power_int 2 k"
  have x0: "x \<noteq> 0" using False by (simp add: x_def)
  define e where "e = max (binary_exponent \<bar>x\<bar>) (- 1022)"
  have ax: "\<bar>x\<bar> = of_int \<bar>m\<bar> * power_int 2 k"
    by (simp add: x_def abs_mult)
  have "(of_int \<bar>m\<bar> :: real) < of_int (2 ^ 53)"
    using m by (simp only: of_int_less_iff)
  then have "of_int \<bar>m\<bar> < (2::real) ^ 53" by simp
  then have "\<bar>x\<bar> < 2 ^ 53 * power_int 2 k"
    unfolding ax by (simp add: mult_strict_right_mono)
  also have "\<dots> = power_int 2 (k + 53)"
    by (simp add: power_int_add)
  finally have up: "\<bar>x\<bar> < power_int 2 (k + 53)" .
  have "power_int 2 (binary_exponent \<bar>x\<bar>) \<le> \<bar>x\<bar>"
    using binary_exponent_bounds[of "\<bar>x\<bar>"] x0 by simp
  then have lt: "power_int (2::real) (binary_exponent \<bar>x\<bar>) < power_int 2 (k + 53)"
    using up by linarith
  have "binary_exponent \<bar>x\<bar> < k + 53"
  proof (rule ccontr)
    assume "\<not> binary_exponent \<bar>x\<bar> < k + 53"
    then have "k + 53 \<le> binary_exponent \<bar>x\<bar>" by simp
    then have "power_int (2::real) (k + 53) \<le> power_int 2 (binary_exponent \<bar>x\<bar>)"
      by (intro power_int_increasing) simp_all
    then show False using lt by linarith
  qed
  then have ek: "e - 52 \<le> k" using k by (simp add: e_def)
  define j where "j = nat (k - (e - 52))"
  have kj: "k = (e - 52) + int j" using ek by (simp add: j_def)
  have pk: "power_int (2::real) k = power_int 2 (e - 52) * 2 ^ j"
    by (subst kj, subst power_int_add) simp_all
  have pos: "0 < power_int (2::real) (e - 52)" by simp
  have q: "x / power_int 2 (e - 52) = of_int (m * 2 ^ j)"
    unfolding x_def pk using pos by simp
  have "to_double x = of_int (round_half_even (x / power_int 2 (e - 52))) * power_int 2 (e - 52)"
    using x0 by (simp add: to_double_def Let_def e_def)
  also have "\<dots> = of_int (m * 2 ^ j) * power_int 2 (e - 52)"
    unfolding q round_half_even_int ..
  also have "\<dots> = x"
    unfolding x_def pk by simp
  finally show ?thesis unfolding x_def .
qed

text \<open>In the normal range the rounding error is at most \<open>2^(-53)\<close> of the number.\<close>

lemma to_double_error:
  assumes "power_int 2 (- 1022) \<le> \<bar>x\<bar>"
  shows "\<bar>to_double x - x\<bar> \<le> \<bar>x\<bar> / 2 ^ 53"
proof -
  have p: "0 < power_int (2::real) (- 1022)" by (rule zero_less_power_int) simp
  then have x0: "x \<noteq> 0" using assms by auto
  define e where "e = binary_exponent \<bar>x\<bar>"
  have b: "power_int 2 e \<le> \<bar>x\<bar>" "\<bar>x\<bar> < power_int 2 (e + 1)"
    using binary_exponent_bounds[of "\<bar>x\<bar>"] x0 by (simp_all add: e_def)
  have e1: "- 1022 \<le> e"
  proof (rule ccontr)
    assume "\<not> - 1022 \<le> e"
    then have "e + 1 \<le> - 1022" by simp
    then have "power_int (2::real) (e + 1) \<le> power_int 2 (- 1022)"
      by (intro power_int_increasing) simp_all
    then show False using assms b by linarith
  qed
  define ulp :: real where "ulp = power_int 2 (e - 52)"
  have up: "0 < ulp" by (simp add: ulp_def)
  have td: "to_double x = of_int (round_half_even (x / ulp)) * ulp"
    using x0 e1 by (simp add: to_double_def Let_def e_def ulp_def max_def)
  have "to_double x - x = (of_int (round_half_even (x / ulp)) - x / ulp) * ulp"
    unfolding td using up by (simp add: field_simps)
  then have "\<bar>to_double x - x\<bar> = \<bar>of_int (round_half_even (x / ulp)) - x / ulp\<bar> * ulp"
    using up by (simp add: abs_mult)
  also have "\<dots> \<le> (1 / 2) * ulp"
    using round_half_even_near[of "x / ulp"] up by (intro mult_right_mono) simp_all
  also have "\<dots> = power_int 2 e / 2 ^ 53"
  proof -
    have "power_int (2::real) e = power_int 2 (e - 52) * 2 ^ 52"
      using power_int_add[of "2::real" "e - 52" 52] by simp
    then show ?thesis by (simp add: ulp_def)
  qed
  also have "\<dots> \<le> \<bar>x\<bar> / 2 ^ 53"
    using b by (simp add: divide_right_mono)
  finally show ?thesis .
qed


text \<open>
  Rounding keeps the sign of a difference of two doubles, and whether it is zero: every
  double is a multiple of \<open>2^(-1074)\<close>, so a difference that is not zero is at least that
  far from zero, and a number that far from zero does not round to zero. This is why the
  comparator may be read with the difference before rounding.
\<close>

lemma round_half_even_sign:
  "1 \<le> q \<Longrightarrow> 1 \<le> round_half_even q" "q \<le> - 1 \<Longrightarrow> round_half_even q \<le> - 1"
proof -
  have fl: "of_int \<lfloor>q\<rfloor> \<le> q" "q < of_int \<lfloor>q\<rfloor> + 1" by linarith+
  show "1 \<le> round_half_even q" if "1 \<le> q"
  proof -
    have "1 \<le> \<lfloor>q\<rfloor>" using that by linarith
    then show ?thesis by (auto simp: round_half_even_def Let_def)
  qed
  show "round_half_even q \<le> - 1" if "q \<le> - 1"
  proof (cases "q - of_int \<lfloor>q\<rfloor> < 1 / 2")
    case True
    have "\<lfloor>q\<rfloor> \<le> - 1" using that by linarith
    then show ?thesis using True by (simp add: round_half_even_def Let_def)
  next
    case False
    then have "of_int \<lfloor>q\<rfloor> \<le> q - 1 / 2" by simp
    then have "(of_int \<lfloor>q\<rfloor> :: real) < - 1" using that by linarith
    then have "\<lfloor>q\<rfloor> < - 1" by linarith
    then show ?thesis by (auto simp: round_half_even_def Let_def)
  qed
qed

lemma to_double_multiple: "\<exists>m. to_double x = of_int m * power_int 2 (- 1074)"
proof (cases "x = 0")
  case True
  then have "to_double x = of_int 0 * power_int 2 (- 1074)" by (simp add: to_double_def)
  then show ?thesis by blast
next
  case False
  define e where "e = max (binary_exponent \<bar>x\<bar>) (- 1022)"
  define j where "j = nat (e + 1022)"
  have "- 1022 \<le> e" unfolding e_def by (rule max.cobounded2)
  then have eq: "e - 52 = - 1074 + int j" unfolding j_def by linarith
  have "power_int (2::real) (e - 52) = power_int 2 (- 1074 + int j)" by (simp only: eq)
  also have "\<dots> = power_int 2 (- 1074) * power_int 2 (int j)" by (rule power_int_add) simp
  finally have pk: "power_int (2::real) (e - 52) = power_int 2 (- 1074) * 2 ^ j"
    by (simp only: power_int_of_nat)
  have "to_double x = of_int (round_half_even (x / power_int 2 (e - 52))) * power_int 2 (e - 52)"
    using False by (simp add: to_double_def Let_def e_def)
  also have "\<dots> = of_int (round_half_even (x / power_int 2 (e - 52)) * 2 ^ j) * power_int 2 (- 1074)"
    unfolding pk by simp
  finally show ?thesis by blast
qed

lemma to_double_sign:
  assumes "power_int 2 (- 1074) \<le> \<bar>x\<bar>"
  shows "(0 < to_double x) = (0 < x)" and "(to_double x = 0) = (x = 0)"
proof -
  have g: "0 < power_int (2::real) (- 1074)" by (rule zero_less_power_int) simp
  then have x0: "x \<noteq> 0" using assms by auto
  define e where "e = max (binary_exponent \<bar>x\<bar>) (- 1022)"
  define ulp :: real where "ulp = power_int 2 (e - 52)"
  have up: "0 < ulp" by (simp add: ulp_def)
  have td: "to_double x = of_int (round_half_even (x / ulp)) * ulp"
    using x0 by (simp add: to_double_def Let_def e_def ulp_def)
  have le: "ulp \<le> \<bar>x\<bar>"
  proof (cases "- 1022 \<le> binary_exponent \<bar>x\<bar>")
    case True
    then have e: "e = binary_exponent \<bar>x\<bar>" by (simp add: e_def)
    have "ulp \<le> power_int 2 e" unfolding ulp_def by (intro power_int_increasing) simp_all
    also have "\<dots> \<le> \<bar>x\<bar>" unfolding e using binary_exponent_bounds[of "\<bar>x\<bar>"] x0 by simp
    finally show ?thesis .
  next
    case False
    then have "ulp = power_int 2 (- 1074)" by (simp add: ulp_def e_def)
    then show ?thesis using assms by simp
  qed
  have pos: "0 < to_double x" if "0 < x"
  proof -
    have "1 \<le> x / ulp" using le that up by (simp add: field_simps)
    then have "1 \<le> round_half_even (x / ulp)" by (rule round_half_even_sign)
    then have "(0::real) < of_int (round_half_even (x / ulp))" by simp
    then show ?thesis unfolding td using up by simp
  qed
  have neg: "to_double x < 0" if "x < 0"
  proof -
    have "x / ulp \<le> - 1" using le that up by (simp add: field_simps)
    then have "round_half_even (x / ulp) \<le> - 1" by (rule round_half_even_sign)
    then have "(of_int (round_half_even (x / ulp)) :: real) < 0" by simp
    then show ?thesis unfolding td using up by (simp add: mult_less_0_iff)
  qed
  show "(0 < to_double x) = (0 < x)" using pos neg x0 by (cases "0 < x") auto
  show "(to_double x = 0) = (x = 0)" using pos neg x0 by (cases "0 < x") auto
qed

lemma double_sub_sign:
  assumes "to_double x = x" and "to_double y = y"
  shows "(double_sub (Fin y) (Fin x) \<noteq> Fin 0) = (js_sub (Fin y) (Fin x) \<noteq> Fin 0)"
    and "cmp_positive (Some (double_sub (Fin y) (Fin x))) = cmp_positive (Some (js_sub (Fin y) (Fin x)))"
proof -
  obtain mx where mx: "x = of_int mx * power_int 2 (- 1074)"
    using to_double_multiple[of x] assms(1) by auto
  obtain my where my: "y = of_int my * power_int 2 (- 1074)"
    using to_double_multiple[of y] assms(2) by auto
  have g: "0 < power_int (2::real) (- 1074)" by (rule zero_less_power_int) simp
  have d: "y - x = of_int (my - mx) * power_int 2 (- 1074)"
    unfolding mx my by (simp add: algebra_simps)
  have s: "(0 < to_double (y - x)) = (0 < y - x) \<and> (to_double (y - x) = 0) = (y - x = 0)"
  proof (cases "my = mx")
    case True
    then show ?thesis unfolding d by (simp add: to_double_def)
  next
    case False
    then have "1 \<le> \<bar>my - mx\<bar>" by simp
    then have "(1::real) \<le> of_int \<bar>my - mx\<bar>" by linarith
    then have "1 * power_int 2 (- 1074) \<le> (of_int \<bar>my - mx\<bar> :: real) * power_int 2 (- 1074)"
      using g by (intro mult_right_mono) simp_all
    then have "power_int 2 (- 1074) \<le> \<bar>y - x\<bar>"
      unfolding d by (simp add: abs_mult)
    then show ?thesis using to_double_sign by blast
  qed
  show "(double_sub (Fin y) (Fin x) \<noteq> Fin 0) = (js_sub (Fin y) (Fin x) \<noteq> Fin 0)"
    using s by simp
  show "cmp_positive (Some (double_sub (Fin y) (Fin x))) = cmp_positive (Some (js_sub (Fin y) (Fin x)))"
    using s by simp
qed

text \<open>
  The quotient of the buffer length by the slice size is compared with an integer. For a
  length below \<open>2^53\<close> and a slice size of at most \<open>2^32\<close> (rows and columns are 16-bit
  numbers) the rounded quotient is that integer exactly when the quotient itself is, so the
  model keeps the quotient as it is.
\<close>

lemma quotient_rounding:
  fixes len size n :: nat
  assumes "len < 2 ^ 53" and "0 < size" and "size \<le> 2 ^ 32"
  shows "(to_double (real len / real size) = real n) = (real len / real size = real n)"
proof
  assume q: "real len / real size = real n"
  have "real n * real size = real len" using q assms(2) by (simp add: field_simps)
  then have "n * size = len" by (metis of_nat_mult of_nat_eq_iff)
  then have "n \<le> len" using assms(2) by (metis One_nat_def Suc_leI mult.right_neutral mult_le_mono2)
  then have "\<bar>int n\<bar> < 2 ^ 53" using assms(1) by simp
  from to_double_exact[of 0 "int n", OF _ this] show "to_double (real len / real size) = real n"
    unfolding q by simp
next
  assume t: "to_double (real len / real size) = real n"
  show "real len / real size = real n"
  proof (cases "len = 0")
    case True
    then show ?thesis using t by (simp add: to_double_def)
  next
    case False
    define q where "q = real len / real size"
    have qpos: "0 < q" using False assms(2) by (simp add: q_def)
    have "(1::real) \<le> real len" using False by simp
    moreover have "real size \<le> 2 ^ 32" using assms(3) by (metis of_nat_le_iff of_nat_numeral of_nat_power)
    ultimately have "1 / 2 ^ 32 \<le> q"
      unfolding q_def using assms(2) by (simp add: field_simps)
    moreover have "power_int (2::real) (- 1022) \<le> power_int 2 (- 32)"
      by (intro power_int_increasing) simp_all
    moreover have "power_int (2::real) (- 32) = 1 / 2 ^ 32" by (simp add: power_int_minus_divide)
    ultimately have "power_int 2 (- 1022) \<le> \<bar>q\<bar>" using qpos by simp
    from to_double_error[OF this] have "\<bar>real n - q\<bar> \<le> q / 2 ^ 53"
      using t qpos unfolding q_def by simp
    then have "\<bar>real n - q\<bar> * real size \<le> q / 2 ^ 53 * real size"
      by (intro mult_right_mono) simp_all
    moreover have "\<bar>real n - q\<bar> * real size = \<bar>real n * real size - real len\<bar>"
    proof -
      have "(real n - q) * real size = real n * real size - real len"
        using assms(2) by (simp add: q_def field_simps)
      then have "\<bar>(real n - q) * real size\<bar> = \<bar>real n * real size - real len\<bar>" by simp
      then show ?thesis by (simp add: abs_mult)
    qed
    moreover have "q / 2 ^ 53 * real size = real len / 2 ^ 53"
      using assms(2) by (simp add: q_def)
    moreover have "real len / 2 ^ 53 < 1"
      using assms(1) by simp
    ultimately have "\<bar>real n * real size - real len\<bar> < 1" by linarith
    then have "\<bar>real_of_int (int n * int size - int len)\<bar> < 1" by simp
    then have "\<bar>int n * int size - int len\<bar> < 1" by linarith
    then have "int n * int size = int len" by simp
    then have "real n * real size = real len" by (metis of_int_of_nat_eq of_nat_mult)
    then show ?thesis using assms(2) by (simp add: field_simps)
  qed
qed

section \<open>Properties of the position utilities\<close>

lemma json_number_inj: "json_number x = json_number y \<Longrightarrow> x = y"
  by (cases x; cases y) auto

lemma json_elements_inj: "json_elements xs = json_elements ys \<Longrightarrow> xs = ys"
proof (induction xs arbitrary: ys rule: json_elements.induct)
  case 1
  then show ?case by (cases ys rule: json_elements.cases) auto
next
  case (2 x)
  then show ?case by (cases ys rule: json_elements.cases) (auto dest: json_number_inj)
next
  case (3 x y ys')
  then show ?case by (cases ys rule: json_elements.cases) (auto dest: json_number_inj)
qed

lemma equalPosPat_eq: "equalPosPat pos1 pos2 = (pos1 = pos2)"
  by (auto simp: equalPosPat_def JSON_stringify_def dest: json_elements_inj)













text \<open>
  Claim C6. \<open>equalPosPat a b\<close> is true exactly when \<open>a\<close> and \<open>b\<close> hold identical values at
  every index (and so have the same length): the comparison has no tolerance.
\<close>

theorem equalPosPat_iff_identical:
  "equalPosPat pos1 pos2 = (pos1 = pos2)
   \<and> equalPosPat [Fin 1, Fin 2, Fin 3] [Fin 1, Fin 2, Fin 3]
   \<and> \<not> equalPosPat [Fin 1, Fin 2, Fin 3] [Fin 1, Fin 2, Fin 4]"
  by (simp add: equalPosPat_eq)

section \<open>Properties of the validator\<close>

text \<open>
  Claim C9, as the code has it. The three checks run in the order transfer syntax,
  segmentation type, dimension organization type, and the first one that fails decides the
  error: a compressed transfer syntax raises the error that names the algorithm; with an
  uncompressed syntax, a missing, empty or (after cleaning) non-\<open>BINARY\<close> segmentation type
  raises an error of class \<open>InvalidSegmentationType\<close>; with both passed, a dimension
  organization type that is present, not empty and (after cleaning) not \<open>3D\<close> raises the
  error of class \<open>UnsupportedDimensionOrganization\<close>; otherwise nothing is raised.
\<close>

theorem checkDicomSeg_first_failing_check:
  "(getSyntaxDecompressionName env (cleanString env (x00020010 d)) = Some a \<longrightarrow>
      checkDicomSeg env d = Inl (UnsupportedCompressed a)
      \<and> class_of (UnsupportedCompressed a) = UnsupportedTransferSyntax)
   \<and> (getSyntaxDecompressionName env (cleanString env (x00020010 d)) = None
       \<and> (falsy (x00620001 d) \<or> cleanString env (x00620001 d) \<noteq> Str ''BINARY'') \<longrightarrow>
      (\<exists>e. checkDicomSeg env d = Inl e \<and> class_of e = InvalidSegmentationType))
   \<and> (getSyntaxDecompressionName env (cleanString env (x00020010 d)) = None
       \<and> \<not> falsy (x00620001 d) \<and> cleanString env (x00620001 d) = Str ''BINARY''
       \<and> \<not> falsy (x00209311 d) \<and> cleanString env (x00209311 d) \<noteq> Str ''3D'' \<longrightarrow>
      checkDicomSeg env d = Inl (UnsupportedDimOrgType (cleanString env (x00209311 d)))
      \<and> class_of (UnsupportedDimOrgType (cleanString env (x00209311 d)))
          = UnsupportedDimensionOrganization)
   \<and> (getSyntaxDecompressionName env (cleanString env (x00020010 d)) = None
       \<and> \<not> falsy (x00620001 d) \<and> cleanString env (x00620001 d) = Str ''BINARY''
       \<and> (falsy (x00209311 d) \<or> cleanString env (x00209311 d) = Str ''3D'') \<longrightarrow>
      checkDicomSeg env d = Inr ())"
  by (auto simp: checkDicomSeg_def Let_def)

lemma sample_clean_simps:
  "cleanString sample_externals = sample_cleanString"
  "getSyntaxDecompressionName sample_externals = sample_decompression"
  by (simp_all add: sample_externals_def)

theorem checkDicomSeg_first_failing_check_witness:
  "checkDicomSeg sample_externals (sample_header \<lparr> x00020010 := Str ''1.2.840.10008.1.2.5'' \<rparr>)
     = Inl (UnsupportedCompressed ''rle'')
   \<and> checkDicomSeg sample_externals (sample_header \<lparr> x00620001 := Str ''FRACTIONAL'' \<rparr>)
     = Inl (UnsupportedSegmentationType (Str ''FRACTIONAL''))
   \<and> checkDicomSeg sample_externals (sample_header \<lparr> x00620001 := Undef \<rparr>)
     = Inl MissingSegmentationType
   \<and> checkDicomSeg sample_externals (sample_header \<lparr> x00209311 := Str ''TILED_FULL'' \<rparr>)
     = Inl (UnsupportedDimOrgType (Str ''TILED_FULL''))
   \<and> checkDicomSeg sample_externals sample_header = Inr ()
   \<and> checkDicomSeg sample_externals (sample_header \<lparr> x00209311 := Undef \<rparr>) = Inr ()"
proof -
  note ev = sample_clean_simps sample_header_def sample_decompression_def trim_spaces_def
  have c: "checkDicomSeg sample_externals (sample_header \<lparr> x00020010 := Str ''1.2.840.10008.1.2.5'' \<rparr>)
             = Inl (UnsupportedCompressed ''rle'')"
    using checkDicomSeg_first_failing_check
      [of sample_externals "sample_header \<lparr> x00020010 := Str ''1.2.840.10008.1.2.5'' \<rparr>" "''rle''"]
    by (simp add: ev)
  have s1: "\<exists>e. checkDicomSeg sample_externals (sample_header \<lparr> x00620001 := Str ''FRACTIONAL'' \<rparr>) = Inl e
             \<and> class_of e = InvalidSegmentationType"
    using checkDicomSeg_first_failing_check
      [of sample_externals "sample_header \<lparr> x00620001 := Str ''FRACTIONAL'' \<rparr>"]
    by (simp add: ev)
  have s2: "\<exists>e. checkDicomSeg sample_externals (sample_header \<lparr> x00620001 := Undef \<rparr>) = Inl e
             \<and> class_of e = InvalidSegmentationType"
    using checkDicomSeg_first_failing_check
      [of sample_externals "sample_header \<lparr> x00620001 := Undef \<rparr>"]
    by (simp add: ev)
  have d1: "checkDicomSeg sample_externals (sample_header \<lparr> x00209311 := Str ''TILED_FULL'' \<rparr>)
     = Inl (UnsupportedDimOrgType (Str ''TILED_FULL''))"
    using checkDicomSeg_first_failing_check
      [of sample_externals "sample_header \<lparr> x00209311 := Str ''TILED_FULL'' \<rparr>"]
    by (simp add: ev)
  have ok1: "checkDicomSeg sample_externals sample_header = Inr ()"
    using checkDicomSeg_first_failing_check [of sample_externals sample_header]
    by (simp add: ev)
  have ok2: "checkDicomSeg sample_externals (sample_header \<lparr> x00209311 := Undef \<rparr>) = Inr ()"
    using checkDicomSeg_first_failing_check
      [of sample_externals "sample_header \<lparr> x00209311 := Undef \<rparr>"]
    by (simp add: ev)
  have s1': "checkDicomSeg sample_externals (sample_header \<lparr> x00620001 := Str ''FRACTIONAL'' \<rparr>)
     = Inl (UnsupportedSegmentationType (Str ''FRACTIONAL''))"
    using s1 by (simp add: checkDicomSeg_def ev)
  have s2': "checkDicomSeg sample_externals (sample_header \<lparr> x00620001 := Undef \<rparr>)
     = Inl MissingSegmentationType"
    using s2 by (simp add: checkDicomSeg_def ev)
  show ?thesis using c s1' s2' d1 ok1 ok2 by simp
qed

text \<open>
  The claim as stated fails where the dimension organization type is present with an empty
  value: it is present and is not \<open>3D\<close>, and the validator raises nothing.
\<close>

theorem checkDicomSeg_empty_dimension_type_counterexample:
  "x00209311 (sample_header \<lparr> x00209311 := Str [] \<rparr>) \<noteq> Undef
   \<and> x00209311 (sample_header \<lparr> x00209311 := Str [] \<rparr>) \<noteq> Str ''3D''
   \<and> checkDicomSeg sample_externals (sample_header \<lparr> x00209311 := Str [] \<rparr>) = Inr ()"
  by (simp add: checkDicomSeg_def sample_clean_simps sample_header_def sample_decompression_def
      trim_spaces_def)

section \<open>Properties of the segment reader\<close>

text \<open>
  Claim C3. For a segment item that carries the recommended display grayscale value
  (0062,000C) the claim expects a segment with that display value. The code tests that key
  and then reads the key \<open>x006200C\<close>, so \<open>getSegment\<close> throws a \<open>TypeError\<close> for every such
  item and returns no segment.
\<close>

theorem getSegment_grayscale_throws:
  "x0062000C element \<noteq> None \<Longrightarrow> getSegment env element = Inl TypeError"
  by (simp add: getSegment_def Let_def split: option.splits)

theorem getSegment_grayscale_throws_witness:
  "x0062000C sample_gray_item = Some [NumV (Fin 5)]
   \<and> getSegment sample_externals sample_gray_item = Inl TypeError"
  using getSegment_grayscale_throws [of sample_gray_item sample_externals]
  by (simp add: sample_gray_item_def)

text \<open>
  Claim C7. The claim expects \<open>isSimilarSegment\<close> to be true as soon as the numbers are
  equal. When the first segment has a colour display value and the second a scalar one, the
  code returns false whatever the numbers are; with the arguments exchanged it returns true
  for equal numbers.
\<close>

theorem isSimilarSegment_rgb_then_scalar:
  "displayValue s1 = Some (RGB c) \<Longrightarrow> displayValue s2 = Some (Scalar v) \<Longrightarrow>
     isSimilarSegment env (Some s1) (Some s2) = Inr False
     \<and> isSimilarSegment env (Some s2) (Some s1) = Inr (dval_eq (number s2) (number s1))"
  by (simp add: isSimilarSegment_def)

theorem isSimilarSegment_rgb_then_scalar_witness:
  "dval_eq (number sample_rgb_segment) (number sample_scalar_segment)
   \<and> isSimilarSegment sample_externals (Some sample_rgb_segment) (Some sample_scalar_segment)
       = Inr False
   \<and> isSimilarSegment sample_externals (Some sample_scalar_segment) (Some sample_rgb_segment)
       = Inr True"
  using isSimilarSegment_rgb_then_scalar
    [of sample_rgb_segment "\<lparr> r = Fin 10, g = Fin 20, b = Fin 30 \<rparr>" sample_scalar_segment "Fin 5"
        sample_externals]
  by (simp add: sample_rgb_segment_def sample_scalar_segment_def)

section \<open>Properties of the position-set builder\<close>







lemma finite_triple_nth:
  "finite_triple p \<Longrightarrow> p = [js_nth p 0, js_nth p 1, Fin (zof p)]"
  by (induction p rule: finite_triple.induct) (simp_all add: js_nth_def zof_def)












text \<open>
  Off the grid the rounding of each subtraction decides how many positions are inserted:
  between \<open>z = 0.3\<close> and \<open>z = 0\<close> with the spacing \<open>0.1\<close> (the doubles nearest to these
  decimals) the loop inserts \<open>0.19999999999999998\<close> and stops, because the next coordinate,
  \<open>0.09999999999999998\<close>, is closer than the spacing to \<open>0\<close>.
\<close>

lemma builder_decimal_example:
  "parseFloat (Str ''0.3'') = Fin (5404319552844595 / 18014398509481984)
   \<and> parseFloat (Str ''0.1'') = Fin (3602879701896397 / 36028797018963968)
   \<and> addMissingPosPats (parseFloat (Str ''0.1'')) [Fin 0, Fin 0, parseFloat (Str ''0.3'')]
         [[Fin 0, Fin 0, Fin 0]] []
       = Some [[Fin 0, Fin 0, Fin (5404319552844595 / 18014398509481984)],
               [Fin 0, Fin 0, Fin (7205759403792793 / 36028797018963968)],
               [Fin 0, Fin 0, Fin 0]]"
  by code_simp






section \<open>Properties of the volume assembler\<close>

lemma assemble_meta:
  "assemble env d pixelBuffer sliceSize dimension segments storeAsRGB spacing0 orientation0 frameInfos
     = Some (Inr img) \<Longrightarrow>
   Modality (image_meta img) = ''SEG'' \<and> SegmentationType (image_meta img) = ''BINARY''
   \<and> DimensionOrganizationType (image_meta img) = ''3D'' \<and> BitsStored (image_meta img) = 8"
  unfolding assemble_def Let_def
  by (auto split: sum.splits option.splits prod.splits list.splits spacing_v.splits
      elim!: and_then.elims)

lemma sample_create_succeeds:
  "(case create sample_externals sample_root sample_pixels of
      Some (Inr img, d', pb') \<Rightarrow> True | _ \<Rightarrow> False)"
  by code_simp

text \<open>
  Claim C10. Every successful decode returns an image whose meta data carry the constants
  \<open>Modality = SEG\<close>, \<open>SegmentationType = BINARY\<close>, \<open>DimensionOrganizationType = 3D\<close> and
  \<open>BitsStored = 8\<close>, whatever the input holds; the sample object, which has no dimension
  organization type, is reported as \<open>3D\<close>.
\<close>

theorem create_meta_constants:
  "create env d pixelBuffer = Some (Inr img, d', pb') \<Longrightarrow>
     Modality (image_meta img) = ''SEG'' \<and> SegmentationType (image_meta img) = ''BINARY''
     \<and> DimensionOrganizationType (image_meta img) = ''3D'' \<and> BitsStored (image_meta img) = 8"
  unfolding create_def
  by (auto split: sum.splits option.splits prod.splits if_splits dest!: assemble_meta)

theorem create_meta_constants_witness:
  "x00209311 sample_root = Undef
   \<and> (\<exists>img d' pb'. create sample_externals sample_root sample_pixels = Some (Inr img, d', pb')
         \<and> Modality (image_meta img) = ''SEG'' \<and> SegmentationType (image_meta img) = ''BINARY''
         \<and> DimensionOrganizationType (image_meta img) = ''3D'' \<and> BitsStored (image_meta img) = 8)"
proof -
  obtain img d' pb' where
    c: "create sample_externals sample_root sample_pixels = Some (Inr img, d', pb')"
  proof (cases "create sample_externals sample_root sample_pixels")
    case None
    then show ?thesis using sample_create_succeeds by simp
  next
    case (Some triple)
    obtain res d' pb' where t: "triple = (res, d', pb')" by (cases triple)
    show ?thesis
    proof (cases res)
      case (Inl e)
      then show ?thesis using sample_create_succeeds Some t by simp
    next
      case (Inr img)
      then show ?thesis using that Some t by simp
    qed
  qed
  show ?thesis
    using c create_meta_constants[OF c] by (auto simp: sample_root_def)
qed

lemma digit_char:
  fixes m :: nat
  assumes "m < 10"
  shows "is_digit (digit_char m)" and "of_char (digit_char m) - 48 = m"
    and "\<not> is_space (digit_char m)" and "digit_char m \<noteq> CHR ''-''"
    and "digit_char m \<noteq> CHR ''+''"
proof -
  have "m \<in> {0, 1, 2, 3, 4, 5, 6, 7, 8, 9}" using assms by auto
  then show "is_digit (digit_char m)" and "of_char (digit_char m) - 48 = m"
    and "\<not> is_space (digit_char m)" and "digit_char m \<noteq> CHR ''-''"
    and "digit_char m \<noteq> CHR ''+''"
    by (auto simp: is_digit_def is_space_def digit_char_def)
qed

lemma decimal_digits: "decimal n \<noteq> [] \<and> (\<forall>c\<in>set (decimal n). is_digit c)"
proof (induction n rule: decimal.induct)
  case (1 n)
  show ?case
  proof (cases "n < 10")
    case True
    then show ?thesis by (subst (1 2) decimal.simps) (simp add: digit_char)
  next
    case False
    have "n mod 10 < 10" by simp
    then show ?thesis using False 1 by (subst (1 2) decimal.simps) (simp add: digit_char)
  qed
qed

lemma digits_value_snoc:
  "digits_value (ds @ [c]) = 10 * digits_value ds + (of_char c - 48)"
  by (simp add: digits_value_def)

lemma digits_value_decimal: "digits_value (decimal n) = n"
proof (induction n rule: decimal.induct)
  case (1 n)
  show ?case
  proof (cases "n < 10")
    case True
    then show ?thesis by (subst decimal.simps) (simp add: digit_char digits_value_def)
  next
    case False
    have m: "n mod 10 < 10" by simp
    have "digits_value (decimal n) = 10 * digits_value (decimal (n div 10)) + n mod 10"
      using False by (subst decimal.simps) (simp add: digits_value_snoc digit_char(2)[OF m])
    then show ?thesis using 1[OF False] by simp
  qed
qed

lemma decimal_head: "\<exists>(m::nat) cs. m < 10 \<and> decimal n = digit_char m # cs"
proof (induction n rule: decimal.induct)
  case (1 n)
  show ?case
  proof (cases "n < 10")
    case True
    then show ?thesis by (subst decimal.simps) auto
  next
    case False
    then obtain m :: nat and cs where "m < 10" "decimal (n div 10) = digit_char m # cs"
      using 1 by blast
    then show ?thesis using False by (subst decimal.simps) auto
  qed
qed

text \<open>\<open>parseInt\<close> reads the decimal numeral of \<open>n\<close> as \<open>n\<close>, as long as \<open>n\<close> is a double.\<close>

lemma parseInt10_decimal:
  assumes "n < 2 ^ 53"
  shows "parseInt10 (decimal n) = Fin (real n)"
proof -
  obtain m :: nat and cs where h: "m < 10" "decimal n = digit_char m # cs"
    using decimal_head by blast
  have sp: "dropWhile is_space (decimal n) = decimal n"
    unfolding h(2) using digit_char(3)[OF h(1)] by simp
  have sg: "split_sign (decimal n) = (1, decimal n)"
    unfolding h(2) using digit_char(4,5)[OF h(1)] by simp
  have tk: "takeWhile is_digit (decimal n) = decimal n"
    using decimal_digits[of n] by simp
  have "\<bar>int n\<bar> < 2 ^ 53" using assms by simp
  from to_double_exact[of 0 "int n", OF _ this]
  have ex: "to_double (real n) = real n" by simp
  show ?thesis
    using decimal_digits[of n]
    by (simp add: parseInt10_def sp sg tk digits_value_decimal ex)
qed

text \<open>
  Claim C8, as the code has it. The declared number of frames is 1 when the tag is absent
  or empty and the number its decimal text denotes otherwise. The checks are fail-fast. Once
  the validator has passed and the columns and rows are present and not zero, a declared
  number that differs from the buffer length divided by rows times columns raises the first
  frame-count error. If it equals that quotient, and the dimension organization, the
  segments and the shared functional groups are read without error and the per-frame
  functional groups sequence is present, a declared number that differs from the length of
  that sequence raises the second frame-count error. Both errors are of the class
  \<open>FrameCountMismatch\<close>.
\<close>

theorem create_frame_count_mismatch:
  assumes "(x00280008 d = None \<or> x00280008 d = Some []) \<and> n = 1
           \<or> x00280008 d = Some (decimal n)"
    and "n < 2 ^ 53"
    and "checkDicomSeg env d = Inr ()"
    and "x00280011 d = Some columns" and "columns \<noteq> 0"
    and "x00280010 d = Some rows" and "rows \<noteq> 0"
  shows "readFrames d = Fin (real n)
    \<and> (real n \<noteq> real (length (elems pixelBuffer)) / real (columns * rows) \<longrightarrow>
         create env d pixelBuffer = Some (Inl BufferFramesNotEqual, d, pixelBuffer))
    \<and> (real n = real (length (elems pixelBuffer)) / real (columns * rows)
        \<and> getDimensionOrganization env d = Inr dimension
        \<and> x00620002 d = Some segSequence \<and> getSegments env segSequence = Inr segs
        \<and> getSharedGroups d = Inr shared \<and> x52009230 d = Some perFrame
        \<and> n \<noteq> length perFrame \<longrightarrow>
         create env d pixelBuffer = Some (Inl PerFrameFramesNotEqual, d, pixelBuffer))
    \<and> class_of BufferFramesNotEqual = FrameCountMismatch
    \<and> class_of PerFrameFramesNotEqual = FrameCountMismatch"
proof -
  have rf: "readFrames d = Fin (real n)"
    using assms(1) parseInt10_decimal[OF assms(2)] decimal_digits[of n]
    by (auto simp: readFrames_def)
  have hd: "readHeader env d pixelBuffer =
      (if real n \<noteq> real (length (elems pixelBuffer)) / real (columns * rows)
       then Inl BufferFramesNotEqual else Inr (columns * rows, Fin (real n)))"
    using assms(3-7) by (simp add: readHeader_def rf Let_def)
  show ?thesis
    using rf by (auto simp: create_def hd split: prod.splits)
qed

text \<open>
  The sample object declares three frames. With a buffer that holds two slices the first
  check raises; so it does when the object declares five frames and the buffer holds three
  slices, and when the tag is absent and the buffer holds two slices. With the per-frame
  sequence cut to two items the second check raises.
\<close>

theorem create_frame_count_mismatch_witness:
  "x00280008 sample_root = Some (decimal 3)
   \<and> create sample_externals sample_root \<lparr> ctor = Uint8Array, elems = [1, 0, 0, 1, 0, 1, 0, 0] \<rparr>
     = Some (Inl BufferFramesNotEqual, sample_root,
             \<lparr> ctor = Uint8Array, elems = [1, 0, 0, 1, 0, 1, 0, 0] \<rparr>)
   \<and> create sample_externals (sample_root \<lparr> x00280008 := Some ''5'' \<rparr>) sample_pixels
     = Some (Inl BufferFramesNotEqual, sample_root \<lparr> x00280008 := Some ''5'' \<rparr>, sample_pixels)
   \<and> readFrames (sample_root \<lparr> x00280008 := None \<rparr>) = Fin 1
   \<and> create sample_externals (sample_root \<lparr> x00280008 := None \<rparr>)
        \<lparr> ctor = Uint8Array, elems = [1, 0, 0, 1, 0, 1, 0, 0] \<rparr>
     = Some (Inl BufferFramesNotEqual, sample_root \<lparr> x00280008 := None \<rparr>,
             \<lparr> ctor = Uint8Array, elems = [1, 0, 0, 1, 0, 1, 0, 0] \<rparr>)
   \<and> create sample_externals
        (sample_root \<lparr> x52009230 := Some [sample_frame [Str ''0'', Str ''0'', Str ''10''],
                                          sample_frame [Str ''0'', Str ''0'', Str ''6'']] \<rparr>)
        sample_pixels
     = Some (Inl PerFrameFramesNotEqual,
             sample_root \<lparr> x52009230 := Some [sample_frame [Str ''0'', Str ''0'', Str ''10''],
                                          sample_frame [Str ''0'', Str ''0'', Str ''6'']] \<rparr>,
             sample_pixels)"
proof -
  let ?short = "\<lparr> ctor = Uint8Array, elems = [1, 0, 0, 1, 0, 1, 0, 0] \<rparr>"
  let ?five = "sample_root \<lparr> x00280008 := Some ''5'' \<rparr>"
  let ?none = "sample_root \<lparr> x00280008 := None \<rparr>"
  let ?two = "sample_root \<lparr> x52009230 := Some [sample_frame [Str ''0'', Str ''0'', Str ''10''],
                                          sample_frame [Str ''0'', Str ''0'', Str ''6'']] \<rparr>"
  have d3: "decimal 3 = ''3''" and d5: "decimal 5 = ''5''" by code_simp+
  have t3: "x00280008 sample_root = Some (decimal 3)" by (simp add: sample_root_def d3)
  have t5: "x00280008 ?five = Some (decimal 5)" by (simp add: d5)
  have tw: "x00280008 ?two = Some (decimal 3)" by (simp add: sample_root_def d3)
  have v: "checkDicomSeg sample_externals sample_root = Inr ()"
    "checkDicomSeg sample_externals ?five = Inr ()"
    "checkDicomSeg sample_externals ?none = Inr ()"
    "checkDicomSeg sample_externals ?two = Inr ()"
    by code_simp+
  have cr: "x00280011 sample_root = Some 2" "x00280010 sample_root = Some 2"
    by (simp_all add: sample_root_def)
  have px: "length (elems sample_pixels) = 12" by (simp add: sample_pixels_def)
  have a: "create sample_externals sample_root ?short = Some (Inl BufferFramesNotEqual, sample_root, ?short)"
    using create_frame_count_mismatch
      [of sample_root 3 sample_externals 2 2 ?short, OF _ _ v(1) cr(1) _ cr(2)] t3
    by simp
  have b: "create sample_externals ?five sample_pixels = Some (Inl BufferFramesNotEqual, ?five, sample_pixels)"
    using create_frame_count_mismatch
      [of ?five 5 sample_externals 2 2 sample_pixels, OF _ _ v(2)] t5 cr
    by (simp add: px)
  have c: "readFrames ?none = Fin 1
     \<and> create sample_externals ?none ?short = Some (Inl BufferFramesNotEqual, ?none, ?short)"
    using create_frame_count_mismatch
      [of ?none 1 sample_externals 2 2 ?short, OF _ _ v(3)] cr
    by simp
  have dm: "getDimensionOrganization sample_externals ?two
              = Inr \<lparr> organizations = [Str ''1.2.3''], indices = [] \<rparr>"
    by code_simp
  have sg: "getSegments sample_externals [sample_segment_item] = Inr ([sample_rgb_segment], True)"
    by code_simp
  have sh: "getSharedGroups ?two
     = Inr (Some (Spacing [Fin 1, Fin 1, Fin 2]),
            Some [NumV (Fin 1), NumV (Fin 0), NumV (Fin 0), NumV (Fin 0), NumV (Fin 1), NumV (Fin 0)])"
    by code_simp
  have e: "create sample_externals ?two sample_pixels = Some (Inl PerFrameFramesNotEqual, ?two, sample_pixels)"
    using create_frame_count_mismatch
      [of ?two 3 sample_externals 2 2 sample_pixels
          "\<lparr> organizations = [Str ''1.2.3''], indices = [] \<rparr>" "[sample_segment_item]"
          "([sample_rgb_segment], True)"
          "(Some (Spacing [Fin 1, Fin 1, Fin 2]),
            Some [NumV (Fin 1), NumV (Fin 0), NumV (Fin 0), NumV (Fin 0), NumV (Fin 1), NumV (Fin 0)])"
          "[sample_frame [Str ''0'', Str ''0'', Str ''10''], sample_frame [Str ''0'', Str ''0'', Str ''6'']]",
        OF _ _ v(4)]
      tw dm sg sh cr
    by (simp add: px sample_root_def)
  show ?thesis using t3 a b c e by simp
qed

text \<open>
  The claim as stated fails where an earlier check fails: the object declares three frames
  and the buffer holds two slices, but the segmentation type is not \<open>BINARY\<close>, and the
  validator's error is raised; or the declared number differs from the length of the
  per-frame sequence, but the segment sequence is missing, and that error is raised.
\<close>

theorem create_frame_count_counterexample:
  "x00280008 sample_root = Some ''3''
   \<and> x00280011 sample_root = Some 2 \<and> x00280010 sample_root = Some 2
   \<and> create sample_externals (sample_root \<lparr> x00620001 := Str ''FRACTIONAL'' \<rparr>)
        \<lparr> ctor = Uint8Array, elems = [1, 0, 0, 1, 0, 1, 0, 0] \<rparr>
     = Some (Inl (UnsupportedSegmentationType (Str ''FRACTIONAL'')),
             sample_root \<lparr> x00620001 := Str ''FRACTIONAL'' \<rparr>,
             \<lparr> ctor = Uint8Array, elems = [1, 0, 0, 1, 0, 1, 0, 0] \<rparr>)
   \<and> class_of (UnsupportedSegmentationType (Str ''FRACTIONAL'')) \<noteq> FrameCountMismatch
   \<and> length (elems sample_pixels) = 12
   \<and> create sample_externals
        (sample_root \<lparr> x00620002 := None,
                       x52009230 := Some [sample_frame [Str ''0'', Str ''0'', Str ''10''],
                                          sample_frame [Str ''0'', Str ''0'', Str ''6'']] \<rparr>)
        sample_pixels
     = Some (Inl MissingSegSequence,
             sample_root \<lparr> x00620002 := None,
                       x52009230 := Some [sample_frame [Str ''0'', Str ''0'', Str ''10''],
                                          sample_frame [Str ''0'', Str ''0'', Str ''6'']] \<rparr>,
             sample_pixels)
   \<and> class_of MissingSegSequence \<noteq> FrameCountMismatch"
proof -
  have a: "create sample_externals (sample_root \<lparr> x00620001 := Str ''FRACTIONAL'' \<rparr>)
        \<lparr> ctor = Uint8Array, elems = [1, 0, 0, 1, 0, 1, 0, 0] \<rparr>
     = Some (Inl (UnsupportedSegmentationType (Str ''FRACTIONAL'')),
             sample_root \<lparr> x00620001 := Str ''FRACTIONAL'' \<rparr>,
             \<lparr> ctor = Uint8Array, elems = [1, 0, 0, 1, 0, 1, 0, 0] \<rparr>)"
    by code_simp
  have b: "create sample_externals
        (sample_root \<lparr> x00620002 := None,
                       x52009230 := Some [sample_frame [Str ''0'', Str ''0'', Str ''10''],
                                          sample_frame [Str ''0'', Str ''0'', Str ''6'']] \<rparr>)
        sample_pixels
     = Some (Inl MissingSegSequence,
             sample_root \<lparr> x00620002 := None,
                       x52009230 := Some [sample_frame [Str ''0'', Str ''0'', Str ''10''],
                                          sample_frame [Str ''0'', Str ''0'', Str ''6'']] \<rparr>,
             sample_pixels)"
    by code_simp
  show ?thesis using a b by (simp add: sample_root_def sample_pixels_def)
qed

lemma getSegmentFrameInfo_parsed_in_place:
  "getSegmentFrameInfo groupItem = (res, groupItem') \<Longrightarrow> parsed_in_place groupItem groupItem'"
  unfolding getSegmentFrameInfo_def parsed_in_place_def first_item_value_def store_position_def Let_def
  by (auto split: sum.splits option.splits list.splits)

lemma getFrameInfos_parsed_in_place:
  "getFrameInfos perFrame = (res, perFrame') \<Longrightarrow> list_all2 parsed_in_place perFrame perFrame'"
proof (induction perFrame arbitrary: res perFrame')
  case Nil
  then show ?case by simp
next
  case (Cons groupItem rest)
  obtain r1 g1 where g: "getSegmentFrameInfo groupItem = (r1, g1)" by (cases "getSegmentFrameInfo groupItem")
  obtain r2 rest' where r: "getFrameInfos rest = (r2, rest')" by (cases "getFrameInfos rest")
  have p1: "parsed_in_place groupItem g1" by (rule getSegmentFrameInfo_parsed_in_place[OF g])
  have p2: "list_all2 parsed_in_place rest rest'" by (rule Cons.IH[OF r])
  have refl: "list_all2 parsed_in_place rest rest"
    by (simp add: list_all2_same parsed_in_place_def)
  show ?case
    using Cons.prems g r p1 p2 refl by (auto split: sum.splits)
qed

text \<open>
  Claim C2, as the code has it. The decode leaves the pixel buffer unchanged and writes to
  the element tree only in the per-frame functional groups sequence, where it replaces the
  entries of the image position of an item's first plane position item by their parsed
  numbers; everything else in the tree is unchanged.
\<close>

theorem create_writes_only_positions:
  "create env d pixelBuffer = Some (res, d', pb') \<Longrightarrow>
     pb' = pixelBuffer
     \<and> (\<exists>perFrame'. d' = d \<lparr> x52009230 := perFrame' \<rparr>
           \<and> rel_option (list_all2 parsed_in_place) (x52009230 d) perFrame')"
proof -
  assume a: "create env d pixelBuffer = Some (res, d', pb')"
  have same: "rel_option (list_all2 parsed_in_place) (x52009230 d) (x52009230 d)"
    by (cases "x52009230 d") (simp_all add: list_all2_same parsed_in_place_def)
  have keep: "d = d \<lparr> x52009230 := x52009230 d \<rparr>" by simp
  have "pb' = pixelBuffer \<and>
    (d' = d \<or> (\<exists>perFrame perFrame' r. x52009230 d = Some perFrame
        \<and> getFrameInfos perFrame = (r, perFrame') \<and> d' = d \<lparr> x52009230 := Some perFrame' \<rparr>))"
    using a unfolding create_def
    by (auto split: sum.splits option.splits prod.splits if_splits)
  then show ?thesis
    using same keep getFrameInfos_parsed_in_place by (metis option.rel_inject(2))
qed

lemma sample_create_state:
  "map_option snd (create sample_externals sample_root sample_pixels)
   = Some (sample_root \<lparr> x52009230 := Some
        [sample_frame [NumV (Fin 0), NumV (Fin 0), NumV (Fin 10)],
         sample_frame [NumV (Fin 0), NumV (Fin 0), NumV (Fin 10)],
         sample_frame [NumV (Fin 0), NumV (Fin 0), NumV (Fin 6)]] \<rparr>, sample_pixels)"
  by code_simp

theorem create_writes_only_positions_witness:
  "\<exists>res. create sample_externals sample_root sample_pixels
      = Some (res, sample_root \<lparr> x52009230 := Some
                [sample_frame [NumV (Fin 0), NumV (Fin 0), NumV (Fin 10)],
                 sample_frame [NumV (Fin 0), NumV (Fin 0), NumV (Fin 10)],
                 sample_frame [NumV (Fin 0), NumV (Fin 0), NumV (Fin 6)]] \<rparr>, sample_pixels)
     \<and> list_all2 parsed_in_place
          [sample_frame [Str ''0'', Str ''0'', Str ''10''],
           sample_frame [Str ''0'', Str ''0'', Str ''10''],
           sample_frame [Str ''0'', Str ''0'', Str ''6'']]
          [sample_frame [NumV (Fin 0), NumV (Fin 0), NumV (Fin 10)],
           sample_frame [NumV (Fin 0), NumV (Fin 0), NumV (Fin 10)],
           sample_frame [NumV (Fin 0), NumV (Fin 0), NumV (Fin 6)]]"
proof -
  let ?after = "sample_root \<lparr> x52009230 := Some
                [sample_frame [NumV (Fin 0), NumV (Fin 0), NumV (Fin 10)],
                 sample_frame [NumV (Fin 0), NumV (Fin 0), NumV (Fin 10)],
                 sample_frame [NumV (Fin 0), NumV (Fin 0), NumV (Fin 6)]] \<rparr>"
  obtain res where c: "create sample_externals sample_root sample_pixels = Some (res, ?after, sample_pixels)"
    using sample_create_state by (cases "create sample_externals sample_root sample_pixels") auto
  from create_writes_only_positions[OF c]
  obtain perFrame' where p: "?after = sample_root \<lparr> x52009230 := perFrame' \<rparr>"
      "rel_option (list_all2 parsed_in_place) (x52009230 sample_root) perFrame'"
    by blast
  from p(1) have "x52009230 ?after = x52009230 (sample_root \<lparr> x52009230 := perFrame' \<rparr>)" by simp
  then have "perFrame' = Some
                [sample_frame [NumV (Fin 0), NumV (Fin 0), NumV (Fin 10)],
                 sample_frame [NumV (Fin 0), NumV (Fin 0), NumV (Fin 10)],
                 sample_frame [NumV (Fin 0), NumV (Fin 0), NumV (Fin 6)]]" by simp
  then show ?thesis using c p(2) by (simp add: sample_root_def)
qed

text \<open>
  The claim as stated fails on the sample object, whose image positions are decimal
  strings: after the decode the element tree holds numbers in their place.
\<close>

theorem create_mutates_positions_counterexample:
  "\<exists>res d'. create sample_externals sample_root sample_pixels = Some (res, d', sample_pixels)
       \<and> d' \<noteq> sample_root
       \<and> x52009230 sample_root = Some [sample_frame [Str ''0'', Str ''0'', Str ''10''],
                                        sample_frame [Str ''0'', Str ''0'', Str ''10''],
                                        sample_frame [Str ''0'', Str ''0'', Str ''6'']]
       \<and> x52009230 d' = Some [sample_frame [NumV (Fin 0), NumV (Fin 0), NumV (Fin 10)],
                               sample_frame [NumV (Fin 0), NumV (Fin 0), NumV (Fin 10)],
                               sample_frame [NumV (Fin 0), NumV (Fin 0), NumV (Fin 6)]]"
proof -
  let ?after = "sample_root \<lparr> x52009230 := Some
                [sample_frame [NumV (Fin 0), NumV (Fin 0), NumV (Fin 10)],
                 sample_frame [NumV (Fin 0), NumV (Fin 0), NumV (Fin 10)],
                 sample_frame [NumV (Fin 0), NumV (Fin 0), NumV (Fin 6)]] \<rparr>"
  obtain res where c: "create sample_externals sample_root sample_pixels = Some (res, ?after, sample_pixels)"
    using sample_create_state by (cases "create sample_externals sample_root sample_pixels") auto
  have ne: "?after \<noteq> sample_root" by code_simp
  have before: "x52009230 sample_root = Some [sample_frame [Str ''0'', Str ''0'', Str ''10''],
                                        sample_frame [Str ''0'', Str ''0'', Str ''10''],
                                        sample_frame [Str ''0'', Str ''0'', Str ''6'']]"
    by (simp add: sample_root_def)
  show ?thesis using c ne before by (intro exI[of _ res] exI[of _ ?after]) simp
qed

section \<open>Properties of the frame merge\<close>

lemma array_set_frame:
  "ctor (array_set a i v) = ctor a"
  "length (elems (array_set a i v)) = length (elems a)"
  "j < length (elems a) \<Longrightarrow>
     elems (array_set a i v) ! j = (if int j = i then to_element (ctor a) v else elems a ! j)"
  by (auto simp: array_set_def nth_list_update)

lemma writePixel_frame:
  assumes "writePixel storeAsRGB pixelValue buffer offset = Inr buffer'"
  shows "ctor buffer' = ctor buffer"
    and "length (elems buffer') = length (elems buffer)"
    and "j < length (elems buffer) \<Longrightarrow>
         elems buffer' ! j =
           (if offset \<le> int j \<and> int j < offset + int (channels storeAsRGB)
            then to_element (ctor buffer) (channel_value storeAsRGB pixelValue (nat (int j - offset)))
            else elems buffer ! j)"
  using assms
  by (auto simp: writePixel_def channels_def channel_value_def array_set_frame
      split: if_splits option.splits display_value.splits)

lemma channel_window:
  "(int (channels rgb) * k \<le> j \<and> j < int (channels rgb) * k + int (channels rgb))
     = (j div int (channels rgb) = k)"
  by (cases rgb) (simp_all add: channels_def, presburger+)

lemma channel_offset:
  "j div int (channels rgb) = k \<Longrightarrow> j - int (channels rgb) * k = j mod int (channels rgb)"
  by (cases rgb) (simp_all add: channels_def, presburger)

lemma mergePixels_frame:
  assumes "mergePixels rgb pv pb n fo so l0 buf = Inr buf'"
  shows "ctor buf' = ctor buf \<and> length (elems buf') = length (elems buf) \<and>
    (\<forall>j < length (elems buf). elems buf' ! j =
       (if int l0 \<le> int j div int (channels rgb) - so
           \<and> int j div int (channels rgb) - so < int n
           \<and> pixel_set pb (fo + nat (int j div int (channels rgb) - so))
        then to_element (ctor buf) (channel_value rgb pv (nat (int j mod int (channels rgb))))
        else elems buf ! j))"
  using assms
proof (induction rgb pv pb n fo so l0 buf arbitrary: buf' rule: mergePixels.induct)
  case (1 rgb pv pb n fo so l buf)
  let ?m = "int (channels rgb)"
  show ?case
  proof (cases "l < n")
    case False
    then have "buf' = buf" using "1.prems" by (simp add: mergePixels.simps)
    then show ?thesis using False by auto
  next
    case True
    obtain buf1 where
      step: "(if pixel_set pb (fo + l)
              then writePixel rgb pv buf ((if rgb then 3 else 1) * (so + int l))
              else Inr buf) = Inr buf1"
      and rest: "mergePixels rgb pv pb n fo so (Suc l) buf1 = Inr buf'"
      using "1.prems" True
      by (subst (asm) mergePixels.simps) (auto elim!: and_then.elims)
    have m: "(if rgb then 3 else 1) = ?m" by (simp add: channels_def)
    note ih = "1.IH"[OF True rest]
    have b1: "ctor buf1 = ctor buf" "length (elems buf1) = length (elems buf)"
      using step writePixel_frame(1,2)[of rgb pv buf "?m * (so + int l)" buf1]
      by (auto simp: m split: if_splits)
    have v1: "elems buf1 ! j =
        (if int j div ?m - so = int l \<and> pixel_set pb (fo + l)
         then to_element (ctor buf) (channel_value rgb pv (nat (int j mod ?m)))
         else elems buf ! j)" if j: "j < length (elems buf)" for j
    proof (cases "pixel_set pb (fo + l)")
      case False
      then show ?thesis using step by simp
    next
      case True
      then have w: "writePixel rgb pv buf (?m * (so + int l)) = Inr buf1"
        using step by (simp add: m)
      have eq: "(int j div ?m - so = int l) = (int j div ?m = so + int l)" by auto
      show ?thesis
        unfolding writePixel_frame(3)[OF w j] eq
        using True channel_window[of rgb "so + int l" "int j"]
          channel_offset[of "int j" rgb "so + int l"]
        by auto
    qed
    show ?thesis
    proof (intro conjI allI impI)
      show "ctor buf' = ctor buf" using ih b1 by simp
      show "length (elems buf') = length (elems buf)" using ih b1 by simp
    next
      fix j assume j: "j < length (elems buf)"
      then have j1: "j < length (elems buf1)" using b1 by simp
      have "elems buf' ! j =
         (if int (Suc l) \<le> int j div ?m - so \<and> int j div ?m - so < int n
             \<and> pixel_set pb (fo + nat (int j div ?m - so))
          then to_element (ctor buf1) (channel_value rgb pv (nat (int j mod ?m)))
          else elems buf1 ! j)"
        using ih j1 by blast
      then show "elems buf' ! j =
         (if int l \<le> int j div ?m - so \<and> int j div ?m - so < int n
             \<and> pixel_set pb (fo + nat (int j div ?m - so))
          then to_element (ctor buf) (channel_value rgb pv (nat (int j mod ?m)))
          else elems buf ! j)"
        unfolding v1[OF j] b1 using True
        by (cases "int j div ?m - so = int l") auto
    qed
  qed
qed

lemma mergeFrames_frame:
  assumes "mergeFrames rgb segs posPats pb n f infos buf = Inr buf'"
  shows "ctor buf' = ctor buf \<and> length (elems buf') = length (elems buf) \<and>
    (\<forall>j < length (elems buf).
       (\<forall>i < length infos. \<not> frame_marks rgb posPats pb n (f + i) (infos ! i) j)
       \<longrightarrow> elems buf' ! j = elems buf ! j)"
  using assms
proof (induction infos arbitrary: f buf)
  case Nil
  then show ?case by simp
next
  case (Cons info infos)
  obtain seg buf1 where
    seg: "find (\<lambda>item. dval_eq (number item) (refSegmentNumber info)) segs = Some seg"
    and px: "mergePixels rgb (displayValue seg) pb n (n * f)
               (int n * findIndexPosPat posPats (imagePosPat info)) 0 buf = Inr buf1"
    and rest: "mergeFrames rgb segs posPats pb n (Suc f) infos buf1 = Inr buf'"
    using Cons.prems by (auto simp: Let_def split: option.splits elim!: and_then.elims)
  note p = mergePixels_frame[OF px]
  note ih = Cons.IH[OF rest]
  show ?case
  proof (intro conjI allI impI)
    show "ctor buf' = ctor buf" using ih p by simp
    show "length (elems buf') = length (elems buf)" using ih p by simp
  next
    fix j
    assume j: "j < length (elems buf)"
      and no: "\<forall>i<length (info # infos). \<not> frame_marks rgb posPats pb n (f + i) ((info # infos) ! i) j"
    have n0: "\<not> frame_marks rgb posPats pb n f info j" using no by force
    have nr: "\<forall>i<length infos. \<not> frame_marks rgb posPats pb n (Suc f + i) (infos ! i) j"
    proof (intro allI impI)
      fix i assume "i < length infos"
      then show "\<not> frame_marks rgb posPats pb n (Suc f + i) (infos ! i) j"
        using no[rule_format, of "Suc i"] by simp
    qed
    have "elems buf' ! j = elems buf1 ! j" using ih j p nr by simp
    also have "\<dots> = elems buf ! j"
      using p j n0 by (auto simp: frame_marks_def Let_def)
    finally show "elems buf' ! j = elems buf ! j" .
  qed
qed

lemma mergeFrames_last:
  assumes "mergeFrames rgb segs posPats pb n f infos buf = Inr buf'"
    and "i < length infos" and "j < length (elems buf)"
    and "frame_marks rgb posPats pb n (f + i) (infos ! i) j"
    and "\<forall>i'. i < i' \<and> i' < length infos \<longrightarrow> \<not> frame_marks rgb posPats pb n (f + i') (infos ! i') j"
  shows "\<exists>seg. find (\<lambda>item. dval_eq (number item) (refSegmentNumber (infos ! i))) segs = Some seg
           \<and> elems buf' ! j = to_element (ctor buf)
                 (channel_value rgb (displayValue seg) (nat (int j mod int (channels rgb))))"
  using assms
proof (induction infos arbitrary: f buf i)
  case Nil
  then show ?case by simp
next
  case (Cons info infos)
  obtain seg buf1 where
    seg: "find (\<lambda>item. dval_eq (number item) (refSegmentNumber info)) segs = Some seg"
    and px: "mergePixels rgb (displayValue seg) pb n (n * f)
               (int n * findIndexPosPat posPats (imagePosPat info)) 0 buf = Inr buf1"
    and rest: "mergeFrames rgb segs posPats pb n (Suc f) infos buf1 = Inr buf'"
    using Cons.prems(1) by (auto simp: Let_def split: option.splits elim!: and_then.elims)
  note p = mergePixels_frame[OF px]
  have j1: "j < length (elems buf1)" using p Cons.prems(3) by simp
  show ?case
  proof (cases i)
    case 0
    have mk: "frame_marks rgb posPats pb n f info j" using Cons.prems(4) 0 by simp
    have nr: "\<forall>k<length infos. \<not> frame_marks rgb posPats pb n (Suc f + k) (infos ! k) j"
    proof (intro allI impI)
      fix k assume "k < length infos"
      then show "\<not> frame_marks rgb posPats pb n (Suc f + k) (infos ! k) j"
        using Cons.prems(5)[rule_format, of "Suc k"] 0 by simp
    qed
    have "elems buf' ! j = elems buf1 ! j"
      using mergeFrames_frame[OF rest] j1 nr by simp
    also have "\<dots> = to_element (ctor buf)
                 (channel_value rgb (displayValue seg) (nat (int j mod int (channels rgb))))"
      using p Cons.prems(3) mk by (auto simp: frame_marks_def Let_def)
    finally show ?thesis using seg 0 by simp
  next
    case (Suc i')
    have a: "i' < length infos" using Cons.prems(2) Suc by simp
    have b: "frame_marks rgb posPats pb n (Suc f + i') (infos ! i') j"
      using Cons.prems(4) Suc by simp
    have c: "\<forall>k. i' < k \<and> k < length infos \<longrightarrow> \<not> frame_marks rgb posPats pb n (Suc f + k) (infos ! k) j"
    proof (intro allI impI)
      fix k assume "i' < k \<and> k < length infos"
      then show "\<not> frame_marks rgb posPats pb n (Suc f + k) (infos ! k) j"
        using Cons.prems(5)[rule_format, of "Suc k"] Suc by simp
    qed
    from Cons.IH[OF rest a j1 b c] show ?thesis using Suc p by simp
  qed
qed

lemma findIndexPosPat_found:
  "findIndexPosPat arr pos = int k \<Longrightarrow> k < length arr \<and> arr ! k = pos"
proof -
  assume a: "findIndexPosPat arr pos = int k"
  then have inc: "includesPosPat arr pos" by (auto simp: findIndexPosPat_def split: if_splits)
  then have k: "k = length (takeWhile (\<lambda>arrVal. \<not> equalPosPat pos arrVal) arr)"
    using a by (simp add: findIndexPosPat_def)
  have "\<not> (\<forall>x\<in>set arr. \<not> equalPosPat pos x)"
    using inc by (auto simp: includesPosPat_def list_ex_iff)
  then have "dropWhile (\<lambda>arrVal. \<not> equalPosPat pos arrVal) arr \<noteq> []"
    by simp
  moreover have "length arr = length (takeWhile (\<lambda>arrVal. \<not> equalPosPat pos arrVal) arr)
                   + length (dropWhile (\<lambda>arrVal. \<not> equalPosPat pos arrVal) arr)"
    by (metis length_append takeWhile_dropWhile_id)
  ultimately have lt: "k < length arr"
    unfolding k by simp
  have "\<not> (\<lambda>arrVal. \<not> equalPosPat pos arrVal) (arr ! k)"
    unfolding k using lt k by (intro nth_length_takeWhile) simp
  then show ?thesis using lt by (simp add: equalPosPat_eq)
qed

lemma voxel_index:
  assumes "l < n" "c < channels rgb"
  shows "int (channels rgb * (k * n + l) + c) div int (channels rgb) = int (k * n + l)"
    and "nat (int (channels rgb * (k * n + l) + c) mod int (channels rgb)) = c"
proof -
  have pos: "0 < channels rgb" by (simp add: channels_def)
  have d: "(channels rgb * (k * n + l) + c) div channels rgb = k * n + l"
    using assms(2) pos by simp
  have m: "(channels rgb * (k * n + l) + c) mod channels rgb = c"
    using assms(2) by simp
  show "int (channels rgb * (k * n + l) + c) div int (channels rgb) = int (k * n + l)"
    using d by (metis zdiv_int)
  show "nat (int (channels rgb * (k * n + l) + c) mod int (channels rgb)) = c"
    using m by (metis zmod_int nat_int)
qed

lemma other_slice:
  assumes "l < (n::nat)" "k' \<noteq> int k"
  shows "\<not> (0 \<le> int (k * n + l) - int n * k' \<and> int (k * n + l) - int n * k' < int n)"
proof
  assume a: "0 \<le> int (k * n + l) - int n * k' \<and> int (k * n + l) - int n * k' < int n"
  have e: "int (k * n + l) - int n * k' = int n * (int k - k') + int l"
    by (simp add: algebra_simps)
  show False
  proof (cases "k' < int k")
    case True
    then have "1 \<le> int k - k'" by simp
    then have "int n * 1 \<le> int n * (int k - k')" by (intro mult_left_mono) simp_all
    then have "int n \<le> int n * (int k - k') + int l" by simp
    then show False using a unfolding e by linarith
  next
    case False
    then have "int k - k' \<le> - 1" using assms(2) by simp
    then have "int n * (int k - k') \<le> int n * (- 1)" by (intro mult_left_mono) simp_all
    then have "int n * (int k - k') + int l < 0" using assms(1) by simp
    then show False using a unfolding e by linarith
  qed
qed

text \<open>
  The merge loop on the segments and frames it is given. Let the merge succeed, and let
  frame \<open>f\<close>, whose position is found at \<open>sliceIndex\<close> in the completed position list, have
  pixel \<open>l\<close> set. If no later frame of the same slice has pixel \<open>l\<close> set, then the output
  holds, at offset \<open>channels * (sliceIndex * sliceSize + l) + c\<close> for each channel \<open>c\<close>, the
  display value of the segment of frame \<open>f\<close> (its component \<open>c\<close>, converted to the element
  type of the buffer). So each set pixel is written at that offset in frame order, and of
  the frames that mark a voxel the last one decides its value.
\<close>

lemma mergeFrames_last_frame_wins:
  assumes "mergeFrames storeAsRGB segments posPats pixelBuffer sliceSize 0 frameInfos buffer = Inr out"
    and "f < length frameInfos" and "l < sliceSize" and "c < channels storeAsRGB"
    and "pixel_set pixelBuffer (sliceSize * f + l)"
    and "findIndexPosPat posPats (imagePosPat (frameInfos ! f)) = int sliceIndex"
    and "offset = channels storeAsRGB * (sliceIndex * sliceSize + l) + c"
    and "offset < length (elems buffer)"
    and "\<forall>f'. f < f' \<and> f' < length frameInfos
            \<and> findIndexPosPat posPats (imagePosPat (frameInfos ! f')) = int sliceIndex
          \<longrightarrow> \<not> pixel_set pixelBuffer (sliceSize * f' + l)"
  shows "posPats ! sliceIndex = imagePosPat (frameInfos ! f)
    \<and> (\<exists>frameSegment.
          find (\<lambda>item. dval_eq (number item) (refSegmentNumber (frameInfos ! f))) segments
            = Some frameSegment
          \<and> elems out ! offset
              = to_element (ctor buffer) (channel_value storeAsRGB (displayValue frameSegment) c))"
proof -
  note vi = voxel_index[OF assms(3,4), of sliceIndex]
  have q: "int offset div int (channels storeAsRGB) - int sliceSize * int sliceIndex = int l"
    unfolding assms(7) vi(1) by (simp add: algebra_simps)
  have mk: "frame_marks storeAsRGB posPats pixelBuffer sliceSize (0 + f) (frameInfos ! f) offset"
    unfolding frame_marks_def Let_def assms(6) q using assms(3,5) by simp
  have later: "\<forall>f'. f < f' \<and> f' < length frameInfos \<longrightarrow>
      \<not> frame_marks storeAsRGB posPats pixelBuffer sliceSize (0 + f') (frameInfos ! f') offset"
  proof (intro allI impI)
    fix f' assume f': "f < f' \<and> f' < length frameInfos"
    show "\<not> frame_marks storeAsRGB posPats pixelBuffer sliceSize (0 + f') (frameInfos ! f') offset"
    proof (cases "findIndexPosPat posPats (imagePosPat (frameInfos ! f')) = int sliceIndex")
      case True
      have "\<not> pixel_set pixelBuffer (sliceSize * f' + l)"
        using assms(9)[rule_format, of f'] f' True by simp
      then show ?thesis
        unfolding frame_marks_def Let_def True q by simp
    next
      case False
      have dv: "int offset div int (channels storeAsRGB) = int (sliceIndex * sliceSize + l)"
        unfolding assms(7) by (rule vi(1))
      have os: "\<not> (0 \<le> int (sliceIndex * sliceSize + l)
                       - int sliceSize * findIndexPosPat posPats (imagePosPat (frameInfos ! f'))
                 \<and> int (sliceIndex * sliceSize + l)
                       - int sliceSize * findIndexPosPat posPats (imagePosPat (frameInfos ! f'))
                     < int sliceSize)"
        by (rule other_slice[OF assms(3) False])
      show ?thesis
        unfolding frame_marks_def Let_def dv using os by blast
    qed
  qed
  have ch: "nat (int offset mod int (channels storeAsRGB)) = c"
    unfolding assms(7) by (rule vi(2))
  show ?thesis
    using mergeFrames_last[OF assms(1,2,8) mk later] findIndexPosPat_found[OF assms(6)]
    by (simp add: ch)
qed

text \<open>
  The loop alone, on segments given as data. One segment with the scalar display value 5, a
  frame of two by two pixels with the pattern \<open>[1,0,0,1]\<close>: the output slice is \<open>[5,0,0,5]\<close>.
  A second frame on the same slice with the pattern \<open>[1,1,0,0]\<close> and a segment of display
  value 7: the first voxel, marked by both frames, takes the value of the later frame.
\<close>

lemma mergeFrames_scalar_example:
  "mergeFrames False sample_scalar_segments [[Fin 0, Fin 0, Fin 0]]
      \<lparr> ctor = Uint8Array, elems = [1, 0, 0, 1] \<rparr> 4 0 [sample_info 0]
      \<lparr> ctor = Uint8Array, elems = replicate 4 0 \<rparr>
     = Inr \<lparr> ctor = Uint8Array, elems = [5, 0, 0, 5] \<rparr>
   \<and> mergeFrames False sample_scalar_segments [[Fin 0, Fin 0, Fin 0]]
      \<lparr> ctor = Uint8Array, elems = [1, 0, 0, 1, 1, 1, 0, 0] \<rparr> 4 0 sample_overlap_infos
      \<lparr> ctor = Uint8Array, elems = replicate 4 0 \<rparr>
     = Inr \<lparr> ctor = Uint8Array, elems = [7, 7, 0, 5] \<rparr>
   \<and> elems \<lparr> ctor = Uint8Array, elems = [7, 7, 0, 5] \<rparr> ! 0
     = to_element Uint8Array (channel_value False (Some (Scalar (Fin 7))) 0)"
proof -
  let ?pb = "\<lparr> ctor = Uint8Array, elems = [1, 0, 0, 1, 1, 1, 0, 0] \<rparr>"
  let ?zero = "\<lparr> ctor = Uint8Array, elems = replicate 4 0 \<rparr>"
  let ?out = "\<lparr> ctor = Uint8Array, elems = [7, 7, 0, 5] \<rparr>"
  have one: "mergeFrames False sample_scalar_segments [[Fin 0, Fin 0, Fin 0]]
      \<lparr> ctor = Uint8Array, elems = [1, 0, 0, 1] \<rparr> 4 0 [sample_info 0] ?zero
     = Inr \<lparr> ctor = Uint8Array, elems = [5, 0, 0, 5] \<rparr>"
    by code_simp
  have two: "mergeFrames False sample_scalar_segments [[Fin 0, Fin 0, Fin 0]] ?pb 4 0
      sample_overlap_infos ?zero = Inr ?out"
    by code_simp
  have idx: "findIndexPosPat [[Fin 0, Fin 0, Fin 0]] (imagePosPat (sample_overlap_infos ! 1)) = int 0"
    by code_simp
  have px: "pixel_set ?pb (4 * 1 + 0)"
    by (simp add: pixel_set_def)
  have seg: "find (\<lambda>item. dval_eq (number item) (refSegmentNumber (sample_overlap_infos ! 1)))
               sample_scalar_segments
             = Some (sample_scalar_segment \<lparr> number := NumV (Fin 2), displayValue := Some (Scalar (Fin 7)) \<rparr>)"
    by (simp add: sample_overlap_infos_def sample_scalar_segments_def sample_scalar_segment_def
        sample_info_def)
  have nolater: "\<forall>f'. 1 < f' \<and> f' < length sample_overlap_infos
            \<and> findIndexPosPat [[Fin 0, Fin 0, Fin 0]] (imagePosPat (sample_overlap_infos ! f')) = int 0
          \<longrightarrow> \<not> pixel_set ?pb (4 * f' + 0)"
  proof (intro allI impI)
    fix f'
    assume "1 < f' \<and> f' < length sample_overlap_infos
            \<and> findIndexPosPat [[Fin 0, Fin 0, Fin 0]] (imagePosPat (sample_overlap_infos ! f')) = int 0"
    then have "1 < f' \<and> f' < 2" by (simp add: sample_overlap_infos_def)
    then have False by linarith
    then show "\<not> pixel_set ?pb (4 * f' + 0)" ..
  qed
  have len: "1 < length sample_overlap_infos" by (simp add: sample_overlap_infos_def)
  have ch: "0 < channels False" by (simp add: channels_def)
  have off: "0 = channels False * (0 * 4 + 0) + 0" by simp
  have inb: "0 < length (elems ?zero)" by simp
  have l4: "(0::nat) < 4" by simp
  from mergeFrames_last_frame_wins[OF two len l4 ch px idx off inb nolater]
  have "elems ?out ! 0 = to_element Uint8Array (channel_value False (Some (Scalar (Fin 7))) 0)"
    using seg by simp
  then show ?thesis using one two by simp
qed

section \<open>Properties of the decode of a grayscale segment\<close>

lemma getSegments_grayscale:
  "list_ex (\<lambda>item. x0062000C item \<noteq> None) segSequence \<Longrightarrow> \<exists>e. getSegments env segSequence = Inl e"
proof (induction segSequence)
  case Nil
  then show ?case by simp
next
  case (Cons item items)
  show ?case
  proof (cases "getSegment env item")
    case (Inl e)
    then show ?thesis by simp
  next
    case (Inr segment)
    then have "x0062000C item = None"
      by (auto simp: getSegment_def Let_def split: option.splits if_splits)
    then obtain e where "getSegments env items = Inl e" using Cons by auto
    then show ?thesis using Inr by (cases "displayValue segment") simp_all
  qed
qed

text \<open>
  Claim C4 on the code. The merge loop does what the claim says for the segments it is
  given (lemma \<open>mergeFrames_last_frame_wins\<close>, and \<open>mergeFrames_scalar_example\<close> for the
  scalar scenario on the loop alone). But a decode never reaches the loop with a scalar
  display value: the segment reader throws on every item that carries the grayscale tag, so
  the decode of an object whose segment sequence holds such an item ends with an error and
  returns no image. On the scalar scenario of the specification the error is the
  \<open>TypeError\<close> of the segment reader.
\<close>

theorem create_grayscale_segment_throws:
  "x00620002 d = Some segSequence \<Longrightarrow> list_ex (\<lambda>item. x0062000C item \<noteq> None) segSequence \<Longrightarrow>
     \<exists>e. create env d pixelBuffer = Some (Inl e, d, pixelBuffer)"
proof -
  assume s: "x00620002 d = Some segSequence"
    and g: "list_ex (\<lambda>item. x0062000C item \<noteq> None) segSequence"
  obtain e where "getSegments env segSequence = Inl e"
    using getSegments_grayscale[OF g] by blast
  then show ?thesis
    using s by (auto simp: create_def split: sum.splits prod.splits)
qed

theorem create_grayscale_segment_throws_witness:
  "x00620002 scalar_scenario = Some [sample_gray_item]
   \<and> x0062000C sample_gray_item = Some [NumV (Fin 5)]
   \<and> (\<exists>e. create sample_externals scalar_scenario scalar_pixels
            = Some (Inl e, scalar_scenario, scalar_pixels))
   \<and> create sample_externals scalar_scenario scalar_pixels
       = Some (Inl TypeError, scalar_scenario, scalar_pixels)"
proof -
  have s: "x00620002 scalar_scenario = Some [sample_gray_item]"
    by (simp add: scalar_scenario_def)
  have g: "x0062000C sample_gray_item = Some [NumV (Fin 5)]"
    by (simp add: sample_gray_item_def)
  have l: "list_ex (\<lambda>item. x0062000C item \<noteq> None) [sample_gray_item]"
    using g by simp
  have ev: "create sample_externals scalar_scenario scalar_pixels
       = Some (Inl TypeError, scalar_scenario, scalar_pixels)"
    by code_simp
  show ?thesis
    using create_grayscale_segment_throws[OF s l, of sample_externals scalar_pixels] s g ev
    by simp
qed

end
